theory Spec2Isabelle
  imports Complex_Main
begin

section \<open>Adaptive-mode decision engine: frustration scoring and mode selection\<close>

text \<open>
  A shallow embedding of the decision-relevant functions of the repository:
  the per-test frustration scorer and its batch driver (Frustraiton.py), the
  live mode-selection policy and answer submission (LearningApp.py,
  learning_webapp.py) and the inactivity monitor (run_addition_app.py).

  Conventions of the embedding.
  \<^item> The scorer is embedded twice. In the first embedding a response time is a
    \<open>real\<close> and every arithmetic operation is exact: its statements are about the
    algorithm on finite values, not about IEEE-754 rounding error. The second
    embedding, on \<open>pyfloat\<close>, adds the values nan, inf and -inf, which \<open>float()\<close>
    accepts in a log.
  \<^item> A submitted answer and an answer key are lists of Unicode code points, with
    \<open>str.upper\<close>, \<open>str.lower\<close> and \<open>str.strip\<close> as the Python library defines them.
    Every other Python string is a \<open>string\<close>, a list of characters with code points
    below 256, and on these \<open>str.lower\<close> and \<open>str.strip\<close> are those of the library.
  \<^item> A CSV file is the list of its parsed data rows, in file order; a file that
    does not exist is the empty list. Appending a row is \<open>rows @ [row]\<close>.
  \<^item> A raised exception is a value \<open>Inl err\<close> of a sum type; so is the early
    return of \<open>start_quiz\<close> on an empty learner id.
  \<^item> A Python dict is an association list in insertion order, without duplicate keys.
\<close>

datatype py_error = StatisticsError | ZeroDivisionError | ValueError | KeyError | EmptyLearnerId

subsection \<open>String helpers\<close>

text \<open>\<open>str.lower\<close> on code points below 256, character by character: the 26 capital
  letters A to Z and the 30 capital letters from U+00C0 to U+00DE (U+00D7, the
  multiplication sign, is not one) become small, every other character is kept.\<close>

definition capital_letters :: string where
  "capital_letters =
     ''ABCDEFGHIJKLMNOPQRSTUVWXYZ'' @
        [CHR 0xC0, CHR 0xC1, CHR 0xC2, CHR 0xC3, CHR 0xC4, CHR 0xC5, CHR 0xC6, CHR 0xC7,
         CHR 0xC8, CHR 0xC9, CHR 0xCA, CHR 0xCB, CHR 0xCC, CHR 0xCD, CHR 0xCE, CHR 0xCF,
         CHR 0xD0, CHR 0xD1, CHR 0xD2, CHR 0xD3, CHR 0xD4, CHR 0xD5, CHR 0xD6, CHR 0xD8,
         CHR 0xD9, CHR 0xDA, CHR 0xDB, CHR 0xDC, CHR 0xDD, CHR 0xDE]"

definition small_letters :: string where
  "small_letters =
     ''abcdefghijklmnopqrstuvwxyz'' @
        [CHR 0xE0, CHR 0xE1, CHR 0xE2, CHR 0xE3, CHR 0xE4, CHR 0xE5, CHR 0xE6, CHR 0xE7,
         CHR 0xE8, CHR 0xE9, CHR 0xEA, CHR 0xEB, CHR 0xEC, CHR 0xED, CHR 0xEE, CHR 0xEF,
         CHR 0xF0, CHR 0xF1, CHR 0xF2, CHR 0xF3, CHR 0xF4, CHR 0xF5, CHR 0xF6, CHR 0xF8,
         CHR 0xF9, CHR 0xFA, CHR 0xFB, CHR 0xFC, CHR 0xFD, CHR 0xFE]"

definition lower_char :: "char \<Rightarrow> char" where
  "lower_char c =
     (case map_of (zip capital_letters small_letters) c of
        Some d \<Rightarrow> d
      | None \<Rightarrow> c)"

definition lower :: "string \<Rightarrow> string" where
  "lower s = map lower_char s"

text \<open>The code points below 256 for which \<open>str.isspace\<close> holds: tab, line feed,
  vertical tab, form feed, carriage return, the separators 28 to 31, space, next line
  (U+0085) and the no-break space (U+00A0).\<close>

definition is_space :: "char \<Rightarrow> bool" where
  "is_space c \<longleftrightarrow>
     c \<in> {CHR 0x09, CHR 0x0A, CHR 0x0B, CHR 0x0C, CHR 0x0D,
          CHR 0x1C, CHR 0x1D, CHR 0x1E, CHR 0x1F, CHR 0x20, CHR 0x85, CHR 0xA0}"

definition strip :: "string \<Rightarrow> string" where
  "strip s = rev (dropWhile is_space (rev (dropWhile is_space s)))"

subsection \<open>Frustraiton.py: the per-test scorer\<close>

text \<open>One parsed row of a learner log, as \<open>_read_log_grouped_by_test\<close> stores it in
  \<open>tests[test_number]\<close>.\<close>

record entry =
  mode :: string
  question :: string
  response_time :: real
  correct :: bool
  skipped :: bool
  emotion :: string

definition NEGATIVE_EMOTIONS :: "string set" where
  "NEGATIVE_EMOTIONS = {''angry'', ''disgust'', ''fear'', ''sad''}"

definition NEUTRAL_EMOTION :: string where
  "NEUTRAL_EMOTION = ''neutral''"

text \<open>\<open>statistics.median\<close>: raises StatisticsError on no data, otherwise the middle
  element of the sorted data, or the mean of the two middle elements.\<close>

definition median :: "real list \<Rightarrow> py_error + real" where
  "median data =
     (let d = sort data; n = length d in
      if n = 0 then Inl StatisticsError
      else if n mod 2 = 1 then Inr (d ! (n div 2))
      else Inr ((d ! (n div 2 - 1) + d ! (n div 2)) / 2))"

text \<open>Lines 113 to 120: the per-test baseline response time.\<close>

definition baseline_of :: "entry list \<Rightarrow> py_error + real" where
  "baseline_of entries =
     (let rts_correct = map response_time (filter (\<lambda>e. correct e \<and> \<not> skipped e) entries);
          rts_all = map response_time (filter (\<lambda>e. \<not> skipped e) entries)
      in if length rts_correct \<ge> 2 then median rts_correct
         else if rts_all \<noteq> [] then median rts_all
         else Inr 10)"

text \<open>Lines 124 and 125: the error/skip component. The caller has excluded the empty
  list, so the divisor is positive.\<close>

definition err_rate :: "entry list \<Rightarrow> real" where
  "err_rate entries =
     real (length (filter (\<lambda>e. skipped e \<or> \<not> correct e) entries)) / real (length entries)"

text \<open>Lines 133 to 139: the value appended to \<open>rt_excess\<close> for one non-skipped entry.
  The division is reached only with a positive baseline.\<close>

definition excess :: "real \<Rightarrow> real \<Rightarrow> real" where
  "excess baseline rt =
     (if baseline \<le> 0 then 0
      else if rt \<le> baseline then 0
      else min ((rt - baseline) / (baseline * 1.5)) 1)"

text \<open>Lines 128 to 139: the loop that builds \<open>rt_excess\<close>, skipping skipped entries.\<close>

fun rt_excess :: "real \<Rightarrow> entry list \<Rightarrow> real list" where
  "rt_excess baseline [] = []"
| "rt_excess baseline (e # es) =
     (if skipped e then rt_excess baseline es
      else excess baseline (response_time e) # rt_excess baseline es)"

definition rt_norm :: "real \<Rightarrow> entry list \<Rightarrow> real" where
  "rt_norm baseline entries =
     sum_list (rt_excess baseline entries) / real (max 1 (length (rt_excess baseline entries)))"

text \<open>Lines 143 to 152: the emotion component.\<close>

definition emo_val :: "string \<Rightarrow> real" where
  "emo_val emotion_label =
     (let emo = lower emotion_label in
      if emo \<in> NEGATIVE_EMOTIONS then 1
      else if emo = NEUTRAL_EMOTION then 0.4
      else 0)"

definition valence :: "entry list \<Rightarrow> real" where
  "valence entries = sum_list (map (\<lambda>e. emo_val (emotion e)) entries) / real (length entries)"

text \<open>Line 155: the weighted combination, and line 156: the smoothstep.\<close>

definition composite :: "real \<Rightarrow> real \<Rightarrow> real \<Rightarrow> real" where
  "composite er rn va = 0.45 * er + 0.25 * rn + 0.30 * va"

definition smoothstep :: "real \<Rightarrow> real" where
  "smoothstep s = 3 * s * s - 2 * s * s * s"

text \<open>Lines 159 to 164: the note, from the thresholds 0.75 and 0.4.\<close>

definition note_of :: "real \<Rightarrow> string" where
  "note_of score =
     (if score > 0.75 then ''High frustration''
      else if score > 0.4 then ''Moderate frustration''
      else ''Low frustration'')"

text \<open>\<open>round(score, 2)\<close> in exact arithmetic: the nearest multiple of 1/100, a tie going
  to the even multiple.\<close>

definition round2 :: "real \<Rightarrow> real" where
  "round2 x =
     (let y = x * 100; f = \<lfloor>y\<rfloor>; d = y - of_int f in
      (if d < 1 / 2 then of_int f
       else if d > 1 / 2 then of_int (f + 1)
       else if even f then of_int f else of_int (f + 1)) / 100)"

text \<open>The value of \<open>score\<close> at line 156, before rounding, for a given baseline.\<close>

definition raw_score :: "real \<Rightarrow> entry list \<Rightarrow> real" where
  "raw_score baseline entries =
     smoothstep (composite (err_rate entries) (rt_norm baseline entries) (valence entries))"

text \<open>\<open>_compute_test_frustration\<close>, lines 96 to 166.\<close>

definition compute_test_frustration :: "entry list \<Rightarrow> py_error + (real \<times> string)" where
  "compute_test_frustration entries =
     (if entries = [] then Inr (0, ''Low frustration'')
      else case baseline_of entries of
             Inl err \<Rightarrow> Inl err
           | Inr baseline \<Rightarrow>
               (let score = raw_score baseline entries
                in Inr (round2 score, note_of score)))"

subsection \<open>Frustraiton.py: the scorer on Python floats\<close>

text \<open>
  The log reader takes each response time through \<open>float()\<close> (line 45), which accepts
  the texts nan, inf and -inf besides the decimal numbers. A Python float is here a
  finite value, one of the two infinities, or nan. The operations below follow
  IEEE 754 on the three special values and are exact on the finite ones: rounding
  error, overflow and the sign of zero are not modelled.
\<close>

datatype pyfloat = Finite real | PosInf | NegInf | NaN

text \<open>\<open>x < y\<close> and \<open>x <= y\<close>: every comparison with nan is false.\<close>

fun f_lt :: "pyfloat \<Rightarrow> pyfloat \<Rightarrow> bool" where
  "f_lt NaN y = False"
| "f_lt x NaN = False"
| "f_lt (Finite a) (Finite b) = (a < b)"
| "f_lt (Finite a) PosInf = True"
| "f_lt NegInf (Finite b) = True"
| "f_lt NegInf PosInf = True"
| "f_lt x y = False"

fun f_le :: "pyfloat \<Rightarrow> pyfloat \<Rightarrow> bool" where
  "f_le NaN y = False"
| "f_le x NaN = False"
| "f_le (Finite a) (Finite b) = (a \<le> b)"
| "f_le x PosInf = True"
| "f_le NegInf y = True"
| "f_le x y = False"

text \<open>\<open>x + y\<close>: nan if an operand is nan or the operands are opposite infinities.\<close>

fun f_add :: "pyfloat \<Rightarrow> pyfloat \<Rightarrow> pyfloat" where
  "f_add NaN y = NaN"
| "f_add x NaN = NaN"
| "f_add (Finite a) (Finite b) = Finite (a + b)"
| "f_add PosInf NegInf = NaN"
| "f_add NegInf PosInf = NaN"
| "f_add PosInf y = PosInf"
| "f_add NegInf y = NegInf"
| "f_add (Finite a) y = y"

fun f_neg :: "pyfloat \<Rightarrow> pyfloat" where
  "f_neg (Finite a) = Finite (- a)"
| "f_neg PosInf = NegInf"
| "f_neg NegInf = PosInf"
| "f_neg NaN = NaN"

definition f_sub :: "pyfloat \<Rightarrow> pyfloat \<Rightarrow> pyfloat" where
  "f_sub x y = f_add x (f_neg y)"

text \<open>The sign of a float that is not nan, as -1, 0 or 1.\<close>

fun f_sign :: "pyfloat \<Rightarrow> int" where
  "f_sign (Finite a) = (if a < 0 then - 1 else if a = 0 then 0 else 1)"
| "f_sign PosInf = 1"
| "f_sign NegInf = - 1"
| "f_sign NaN = 0"

text \<open>\<open>x * y\<close>: nan if an operand is nan or the product is of zero and an infinity;
  otherwise an infinity times anything is the infinity of the product's sign.\<close>

fun f_mul :: "pyfloat \<Rightarrow> pyfloat \<Rightarrow> pyfloat" where
  "f_mul NaN y = NaN"
| "f_mul x NaN = NaN"
| "f_mul (Finite a) (Finite b) = Finite (a * b)"
| "f_mul x y =
     (if f_sign x * f_sign y = 0 then NaN
      else if f_sign x * f_sign y < 0 then NegInf else PosInf)"

text \<open>\<open>x / y\<close>: a zero divisor raises ZeroDivisionError whatever the dividend is.
  Otherwise nan if an operand is nan or both are infinities, zero if only the divisor
  is an infinity, and an infinity divided by a finite value is the infinity of the
  quotient's sign.\<close>

fun f_div :: "pyfloat \<Rightarrow> pyfloat \<Rightarrow> py_error + pyfloat" where
  "f_div x (Finite b) =
     (if b = 0 then Inl ZeroDivisionError
      else case x of
             Finite a \<Rightarrow> Inr (Finite (a / b))
           | NaN \<Rightarrow> Inr NaN
           | _ \<Rightarrow> Inr (if f_sign x * f_sign (Finite b) < 0 then NegInf else PosInf))"
| "f_div NaN y = Inr NaN"
| "f_div x NaN = Inr NaN"
| "f_div (Finite a) y = Inr (Finite 0)"
| "f_div x y = Inr NaN"

text \<open>\<open>min(x, y)\<close> of two arguments: the first, unless the second is less than it.\<close>

definition py_min :: "pyfloat \<Rightarrow> pyfloat \<Rightarrow> pyfloat" where
  "py_min x y = (if f_lt y x then y else x)"

text \<open>\<open>sum(xs)\<close>: the additions from the left, starting from 0.\<close>

definition py_sum :: "pyfloat list \<Rightarrow> pyfloat" where
  "py_sum xs = foldl f_add (Finite 0) xs"

text \<open>\<open>round(x, 2)\<close>: an infinity and nan are returned as they are.\<close>

fun py_round2 :: "pyfloat \<Rightarrow> pyfloat" where
  "py_round2 (Finite a) = Finite (round2 a)"
| "py_round2 x = x"

text \<open>One parsed row of a learner log with the response time as \<open>float()\<close> returns
  it.\<close>

record float_entry =
  mode_f :: string
  question_f :: string
  response_time_f :: pyfloat
  correct_f :: bool
  skipped_f :: bool
  emotion_f :: string

text \<open>\<open>statistics.median\<close> on floats. \<open>sorted\<close> compares with \<open><\<close>, and on a list
  that holds nan the order it returns depends on its algorithm; it is the parameter
  \<open>srt\<close>, of which the statements below assume at most that it returns the elements
  it was given.\<close>

definition median_f :: "(pyfloat list \<Rightarrow> pyfloat list) \<Rightarrow> pyfloat list \<Rightarrow> py_error + pyfloat" where
  "median_f srt data =
     (let d = srt data; n = length d in
      if n = 0 then Inl StatisticsError
      else if n mod 2 = 1 then Inr (d ! (n div 2))
      else f_div (f_add (d ! (n div 2 - 1)) (d ! (n div 2))) (Finite 2))"

text \<open>Lines 113 to 120.\<close>

definition baseline_f :: "(pyfloat list \<Rightarrow> pyfloat list) \<Rightarrow> float_entry list \<Rightarrow> py_error + pyfloat" where
  "baseline_f srt entries =
     (let rts_correct = map response_time_f (filter (\<lambda>e. correct_f e \<and> \<not> skipped_f e) entries);
          rts_all = map response_time_f (filter (\<lambda>e. \<not> skipped_f e) entries)
      in if length rts_correct \<ge> 2 then median_f srt rts_correct
         else if rts_all \<noteq> [] then median_f srt rts_all
         else Inr (Finite 10))"

text \<open>Lines 124 and 125: a quotient of two integers, the divisor positive.\<close>

definition err_rate_f :: "float_entry list \<Rightarrow> real" where
  "err_rate_f entries =
     real (length (filter (\<lambda>e. skipped_f e \<or> \<not> correct_f e) entries)) / real (length entries)"

text \<open>Lines 133 to 139.\<close>

definition excess_f :: "pyfloat \<Rightarrow> pyfloat \<Rightarrow> py_error + pyfloat" where
  "excess_f baseline rt =
     (if f_le baseline (Finite 0) then Inr (Finite 0)
      else if f_le rt baseline then Inr (Finite 0)
      else case f_div (f_sub rt baseline) (f_mul baseline (Finite 1.5)) of
             Inl err \<Rightarrow> Inl err
           | Inr q \<Rightarrow> Inr (py_min q (Finite 1)))"

text \<open>Lines 128 to 139.\<close>

fun rt_excess_f :: "pyfloat \<Rightarrow> float_entry list \<Rightarrow> py_error + pyfloat list" where
  "rt_excess_f baseline [] = Inr []"
| "rt_excess_f baseline (e # es) =
     (if skipped_f e then rt_excess_f baseline es
      else case excess_f baseline (response_time_f e) of
             Inl err \<Rightarrow> Inl err
           | Inr x \<Rightarrow> (case rt_excess_f baseline es of
                         Inl err \<Rightarrow> Inl err
                       | Inr xs \<Rightarrow> Inr (x # xs)))"

text \<open>Line 140.\<close>

definition rt_norm_f :: "pyfloat \<Rightarrow> float_entry list \<Rightarrow> py_error + pyfloat" where
  "rt_norm_f baseline entries =
     (case rt_excess_f baseline entries of
        Inl err \<Rightarrow> Inl err
      | Inr xs \<Rightarrow> f_div (py_sum xs) (Finite (real (max 1 (length xs)))))"

text \<open>Lines 143 to 152: a sum of the constants 1.0, 0.4 and 0.0 over a positive
  integer.\<close>

definition valence_f :: "float_entry list \<Rightarrow> real" where
  "valence_f entries = sum_list (map (\<lambda>e. emo_val (emotion_f e)) entries) / real (length entries)"

text \<open>Lines 155 and 156.\<close>

definition composite_f :: "real \<Rightarrow> pyfloat \<Rightarrow> real \<Rightarrow> pyfloat" where
  "composite_f er rn va =
     f_add (f_add (f_mul (Finite 0.45) (Finite er)) (f_mul (Finite 0.25) rn))
           (f_mul (Finite 0.30) (Finite va))"

definition smoothstep_f :: "pyfloat \<Rightarrow> pyfloat" where
  "smoothstep_f s =
     f_sub (f_mul (f_mul (Finite 3) s) s) (f_mul (f_mul (f_mul (Finite 2) s) s) s)"

text \<open>Lines 159 to 164.\<close>

definition note_of_f :: "pyfloat \<Rightarrow> string" where
  "note_of_f score =
     (if f_lt (Finite 0.75) score then ''High frustration''
      else if f_lt (Finite 0.4) score then ''Moderate frustration''
      else ''Low frustration'')"

text \<open>\<open>_compute_test_frustration\<close>, lines 96 to 166, on floats.\<close>

definition compute_test_frustration_f ::
  "(pyfloat list \<Rightarrow> pyfloat list) \<Rightarrow> float_entry list \<Rightarrow> py_error + (pyfloat \<times> string)" where
  "compute_test_frustration_f srt entries =
     (if entries = [] then Inr (Finite 0, ''Low frustration'')
      else case baseline_f srt entries of
             Inl err \<Rightarrow> Inl err
           | Inr baseline \<Rightarrow>
               (case rt_norm_f baseline entries of
                  Inl err \<Rightarrow> Inl err
                | Inr rn \<Rightarrow>
                    (let score = smoothstep_f (composite_f (err_rate_f entries) rn
                                                 (valence_f entries))
                     in Inr (py_round2 score, note_of_f score))))"

text \<open>A sort to evaluate the definitions with: insertion from the right, by \<open><\<close>.\<close>

fun insert_f :: "pyfloat \<Rightarrow> pyfloat list \<Rightarrow> pyfloat list" where
  "insert_f x [] = [x]"
| "insert_f x (y # ys) = (if f_lt y x then y # insert_f x ys else x # y # ys)"

definition insertion_sorted :: "pyfloat list \<Rightarrow> pyfloat list" where
  "insertion_sorted xs = foldr insert_f xs []"


subsection \<open>Dictionaries\<close>

text \<open>\<open>d[k] = v\<close>: an existing key keeps its position, a new key goes to the end.\<close>

fun dict_set :: "'k \<Rightarrow> 'v \<Rightarrow> ('k \<times> 'v) list \<Rightarrow> ('k \<times> 'v) list" where
  "dict_set k v [] = [(k, v)]"
| "dict_set k v ((k', v') # kvs) =
     (if k' = k then (k, v) # kvs else (k', v') # dict_set k v kvs)"

text \<open>\<open>d.get(k, default)\<close>.\<close>

definition dict_get :: "'k \<Rightarrow> 'v \<Rightarrow> ('k \<times> 'v) list \<Rightarrow> 'v" where
  "dict_get k dflt d = (case map_of d k of None \<Rightarrow> dflt | Some v \<Rightarrow> v)"

subsection \<open>Frustraiton.py: the batch driver\<close>

text \<open>A parsed row of \<open>learner_log{id}.csv\<close>: the fields of an entry, with the learner
  and the test number. Rows that fail to parse are dropped by the reader and are not
  part of the model.\<close>

record log_row = entry +
  learner_id :: string
  test_number :: int

text \<open>A row of \<open>frustration_report{id}.csv\<close>.\<close>

record report_row =
  rep_learner_id :: string
  rep_test_number :: int
  timestamp :: string
  rep_mode :: string
  frustration_score :: real
  rep_notes :: string

text \<open>\<open>_read_log_grouped_by_test\<close>, lines 25 to 64: the learner id found (the last
  non-empty one) and the entries grouped by test number.\<close>

definition read_log_step ::
  "log_row \<Rightarrow> string option \<times> (int \<times> entry list) list \<Rightarrow> string option \<times> (int \<times> entry list) list" where
  "read_log_step row acc =
     (case acc of (learner_id_found, tests) \<Rightarrow>
        (if learner_id row \<noteq> [] then Some (learner_id row) else learner_id_found,
         dict_set (test_number row)
           (dict_get (test_number row) [] tests @ [entry.truncate row]) tests))"

definition read_log_grouped_by_test ::
  "log_row list \<Rightarrow> string option \<times> (int \<times> entry list) list" where
  "read_log_grouped_by_test log_file = fold read_log_step log_file (None, [])"

text \<open>\<open>_existing_tests_in_report\<close>, lines 66 to 83.\<close>

definition existing_tests_in_report :: "report_row list \<Rightarrow> string \<Rightarrow> int set" where
  "existing_tests_in_report output_file lid =
     set (map rep_test_number (filter (\<lambda>row. rep_learner_id row = lid) output_file))"

text \<open>Lines 185 to 195: the loop over \<open>sorted(tests)\<close> that collects the new rows. The
  clock reading \<open>now\<close> is a parameter.\<close>

fun new_rows ::
  "string \<Rightarrow> string \<Rightarrow> int set \<Rightarrow> (int \<times> entry list) list \<Rightarrow> int list \<Rightarrow> py_error + report_row list" where
  "new_rows lid now already tests [] = Inr []"
| "new_rows lid now already tests (t # ts) =
     (if t \<in> already then new_rows lid now already tests ts
      else case map_of tests t of
             None \<Rightarrow> Inl KeyError
           | Some entries \<Rightarrow>
               (case compute_test_frustration entries of
                  Inl err \<Rightarrow> Inl err
                | Inr (score, note) \<Rightarrow>
                    (case new_rows lid now already tests ts of
                       Inl err \<Rightarrow> Inl err
                     | Inr rows \<Rightarrow>
                         Inr (\<lparr>rep_learner_id = lid, rep_test_number = t, timestamp = now,
                               rep_mode = (case entries of [] \<Rightarrow> ''unknown'' | e # _ \<Rightarrow> mode e),
                               frustration_score = score, rep_notes = note\<rparr> # rows))))"

text \<open>\<open>compute_frustration_per_test\<close>, lines 172 to 205: the report file after the
  run, given the log file and the report file before it.\<close>

definition compute_frustration_per_test ::
  "string \<Rightarrow> log_row list \<Rightarrow> report_row list \<Rightarrow> py_error + report_row list" where
  "compute_frustration_per_test now log_file output_file =
     (case read_log_grouped_by_test log_file of
        (None, tests) \<Rightarrow> Inr output_file
      | (Some lid, tests) \<Rightarrow>
          if tests = [] then Inr output_file
          else case new_rows lid now (existing_tests_in_report output_file lid) tests
                      (sort (map fst tests)) of
                 Inl err \<Rightarrow> Inl err
               | Inr rows \<Rightarrow> Inr (output_file @ rows))"

subsection \<open>LearningApp.py: stores and mode selection\<close>

text \<open>\<open>get_frustration\<close>, lines 239 to 247: the score of the first row of the learner.\<close>

fun get_frustration :: "string \<Rightarrow> report_row list \<Rightarrow> real option" where
  "get_frustration lid [] = None"
| "get_frustration lid (row # rows) =
     (if rep_learner_id row = lid then Some (frustration_score row)
      else get_frustration lid rows)"

text \<open>\<open>get_preferred_mode\<close>, lines 249 to 257, over the rows (learner_id,
  preferred_mode) of the preferred-mode file.\<close>

fun get_preferred_mode :: "string \<Rightarrow> (string \<times> string) list \<Rightarrow> string option" where
  "get_preferred_mode lid [] = None"
| "get_preferred_mode lid (row # rows) =
     (if fst row = lid then Some (snd row) else get_preferred_mode lid rows)"

text \<open>\<open>get_last_used_mode\<close>, lines 259 to 280: the loop state is (last_mode,
  max_test_number), starting from (None, 0).\<close>

definition last_used_step :: "log_row \<Rightarrow> string option \<times> int \<Rightarrow> string option \<times> int" where
  "last_used_step row acc =
     (case acc of (last_mode, max_test_number) \<Rightarrow>
        if test_number row \<ge> max_test_number then (Some (mode row), test_number row)
        else (last_mode, max_test_number))"

definition get_last_used_mode :: "log_row list \<Rightarrow> string option" where
  "get_last_used_mode log_file = fst (fold last_used_step log_file (None, 0))"

text \<open>\<open>save_preferred_mode\<close>, lines 282 to 288: one row appended.\<close>

definition save_preferred_mode ::
  "string \<Rightarrow> string \<Rightarrow> (string \<times> string) list \<Rightarrow> (string \<times> string) list" where
  "save_preferred_mode lid m prefs = prefs @ [(lid, m)]"

definition MODES :: "string list" where
  "MODES = [''visual'', ''auditory'', ''kinesthetic'']"

text \<open>\<open>list.index\<close>: the first position of the value, None where Python raises
  ValueError.\<close>

fun index_of :: "'a \<Rightarrow> 'a list \<Rightarrow> nat option" where
  "index_of x [] = None"
| "index_of x (y # ys) =
     (if y = x then Some 0 else map_option Suc (index_of x ys))"

text \<open>\<open>get_next_mode\<close>, lines 290 to 292.\<close>

definition get_next_mode :: "string \<Rightarrow> py_error + string" where
  "get_next_mode current =
     (case index_of current MODES of
        None \<Rightarrow> Inl ValueError
      | Some idx \<Rightarrow> Inr (MODES ! ((idx + 1) mod length MODES)))"

text \<open>The truth value Python gives to a value that is None or a string: only a
  non-empty string is true.\<close>

definition truthy :: "string option \<Rightarrow> string option" where
  "truthy v = (case v of None \<Rightarrow> None | Some s \<Rightarrow> if s = [] then None else Some s)"

text \<open>\<open>start_quiz\<close>, lines 314 to 350: the mode chosen and the preferred-mode file
  after the call. \<open>reports\<close> and \<open>logs\<close> give the rows of the report file and of the log
  file of a learner id. The rest of the function (test counter, widgets) is not
  modelled.\<close>

definition start_quiz ::
  "string \<Rightarrow> (string \<times> string) list \<Rightarrow> (string \<Rightarrow> report_row list) \<Rightarrow> (string \<Rightarrow> log_row list)
     \<Rightarrow> py_error + (string \<times> (string \<times> string) list)" where
  "start_quiz id_input prefs reports logs =
     (let lid = strip id_input in
      if lid = [] then Inl EmptyLearnerId
      else
        let preferred_mode = get_preferred_mode lid prefs;
            score = get_frustration lid (reports lid);
            last_used_mode = get_last_used_mode (logs lid)
        in case score of
             None \<Rightarrow> Inr (''visual'', prefs)
           | Some sc \<Rightarrow>
               if sc \<ge> 0.4 then
                 (case truthy last_used_mode of
                    Some m \<Rightarrow>
                      (case get_next_mode m of
                         Inl err \<Rightarrow> Inl err
                       | Inr current_mode \<Rightarrow> Inr (current_mode, prefs))
                  | None \<Rightarrow> Inr (''auditory'', prefs))
               else
                 (let current_mode =
                        (case truthy preferred_mode of
                           Some p \<Rightarrow> p
                         | None \<Rightarrow>
                             (case truthy last_used_mode of
                                Some m \<Rightarrow> m
                              | None \<Rightarrow> ''visual''))
                  in Inr (current_mode, save_preferred_mode lid current_mode prefs)))"





subsection \<open>Answer submission (LearningApp.py and learning_webapp.py)\<close>

text \<open>
  An answer and an answer key are Python strings, here the lists of their Unicode
  code points. \<open>str.upper\<close> and \<open>str.lower\<close> replace each code point by its uppercase
  or lowercase mapping in the Unicode character database, which is one to three code
  points long; the two mappings are the parameters \<open>up\<close> and \<open>lo\<close>. \<open>str.lower\<close>
  alone treats the capital sigma (U+03A3) by its context: it becomes U+03C2 in final
  position and U+03C3 elsewhere, and the test for the final position is the parameter
  \<open>final_sigma\<close>. \<open>str.strip\<close> removes, at both ends, the code points for which
  \<open>str.isspace\<close> holds.
\<close>

definition py_upper :: "(nat \<Rightarrow> nat list) \<Rightarrow> nat list \<Rightarrow> nat list" where
  "py_upper up s = concat (map up s)"

definition py_lower ::
  "(nat \<Rightarrow> nat list) \<Rightarrow> (nat list \<Rightarrow> nat \<Rightarrow> bool) \<Rightarrow> nat list \<Rightarrow> nat list" where
  "py_lower lo final_sigma s =
     concat (map (\<lambda>(i, c). if c = 0x3A3 then (if final_sigma s i then [0x3C2] else [0x3C3])
                             else lo c)
               (enumerate 0 s))"

definition py_isspace :: "nat \<Rightarrow> bool" where
  "py_isspace c \<longleftrightarrow>
     c \<in> {0x09, 0x0A, 0x0B, 0x0C, 0x0D, 0x1C, 0x1D, 0x1E, 0x1F, 0x20, 0x85, 0xA0, 0x1680,
          0x2028, 0x2029, 0x202F, 0x205F, 0x3000}
     \<or> (0x2000 \<le> c \<and> c \<le> 0x200A)"

definition py_strip :: "nat list \<Rightarrow> nat list" where
  "py_strip s = rev (dropWhile py_isspace (rev (dropWhile py_isspace s)))"

text \<open>The strings SKIP and skip, and the four strings that are the lowercase of a
  string whose uppercase is SKIP: skip, and skip with the long s (U+017F), with the
  dotless i (U+0131), and with both.\<close>

definition SKIP :: "nat list" where
  "SKIP = [0x53, 0x4B, 0x49, 0x50]"

definition skip :: "nat list" where
  "skip = [0x73, 0x6B, 0x69, 0x70]"

definition lowercase_skips :: "nat list set" where
  "lowercase_skips =
     {[0x73, 0x6B, 0x69, 0x70], [0x17F, 0x6B, 0x69, 0x70],
      [0x73, 0x6B, 0x131, 0x70], [0x17F, 0x6B, 0x131, 0x70]}"

text \<open>\<open>current_question\<close>: the question text and its answer key.\<close>

record question_item =
  q_text :: string
  q_answer :: "nat list"

text \<open>\<open>submit_answer\<close> of LearningApp.py, lines 506 to 526: the row appended to
  \<open>session_data\<close>.\<close>

definition submit_answer ::
  "(nat \<Rightarrow> nat list) \<Rightarrow> (nat \<Rightarrow> nat list) \<Rightarrow> (nat list \<Rightarrow> nat \<Rightarrow> bool)
     \<Rightarrow> string \<Rightarrow> int \<Rightarrow> string \<Rightarrow> question_item \<Rightarrow> real \<Rightarrow> string \<Rightarrow> nat list \<Rightarrow> log_row" where
  "submit_answer up lo final_sigma lid test_no current_mode current_question time_taken
       current_emotion answer =
     (let is_correct = (py_lower lo final_sigma (py_strip answer)
                          = py_lower lo final_sigma (q_answer current_question));
          is_skipped = (py_upper up (py_strip answer) = SKIP);
          is_skipped = (if answer = [] then True else is_skipped)
      in \<lparr>mode = current_mode, question = q_text current_question,
          response_time = round2 time_taken, correct = is_correct, skipped = is_skipped,
          emotion = current_emotion, learner_id = lid, test_number = test_no\<rparr>)"

text \<open>\<open>submit_answer\<close> of learning_webapp.py, lines 334 to 364: the answer is stripped
  first.\<close>

definition submit_answer_web ::
  "(nat \<Rightarrow> nat list) \<Rightarrow> (nat \<Rightarrow> nat list) \<Rightarrow> (nat list \<Rightarrow> nat \<Rightarrow> bool)
     \<Rightarrow> string \<Rightarrow> int \<Rightarrow> string \<Rightarrow> question_item \<Rightarrow> real \<Rightarrow> string \<Rightarrow> nat list \<Rightarrow> log_row" where
  "submit_answer_web up lo final_sigma lid test_no current_mode current_question time_taken
       current_emotion raw_answer =
     (let answer = py_strip raw_answer;
          is_correct = (py_lower lo final_sigma answer
                          = py_lower lo final_sigma (q_answer current_question));
          is_skipped = (py_upper up answer = SKIP \<or> answer = [])
      in \<lparr>mode = current_mode, question = q_text current_question,
          response_time = round2 time_taken, correct = is_correct, skipped = is_skipped,
          emotion = current_emotion, learner_id = lid, test_number = test_no\<rparr>)"

text \<open>The rows of the Unicode case mappings that bear on the word SKIP: every code
  point whose uppercase mapping contains S, K, I or P, with that mapping (the letters
  themselves, the small letters, the sharp s, the dotless i, the long s and four
  ligatures), and the lowercase mapping of each code point whose uppercase mapping is
  S, K, I or P.\<close>

definition upper_rows :: "(nat \<times> nat list) list" where
  "upper_rows =
     [(0x49, [0x49]), (0x4B, [0x4B]), (0x50, [0x50]), (0x53, [0x53]),
      (0x69, [0x49]), (0x6B, [0x4B]), (0x70, [0x50]), (0x73, [0x53]),
      (0xDF, [0x53, 0x53]), (0x131, [0x49]), (0x17F, [0x53]),
      (0xFB01, [0x46, 0x49]), (0xFB03, [0x46, 0x46, 0x49]),
      (0xFB05, [0x53, 0x54]), (0xFB06, [0x53, 0x54])]"

definition lower_rows :: "(nat \<times> nat list) list" where
  "lower_rows =
     [(0x49, [0x69]), (0x4B, [0x6B]), (0x50, [0x70]), (0x53, [0x73]),
      (0x69, [0x69]), (0x6B, [0x6B]), (0x70, [0x70]), (0x73, [0x73]),
      (0x131, [0x131]), (0x17F, [0x17F])]"

text \<open>What is used of the two mappings: no mapping is empty, \<open>upper_rows\<close> lists every
  code point whose uppercase mapping contains S, K, I or P, and \<open>lo\<close> has the rows of
  \<open>lower_rows\<close>.\<close>

definition case_tables :: "(nat \<Rightarrow> nat list) \<Rightarrow> (nat \<Rightarrow> nat list) \<Rightarrow> bool" where
  "case_tables up lo \<longleftrightarrow>
     (\<forall>c. up c \<noteq> [] \<and> lo c \<noteq> [])
     \<and> (\<forall>c. set (up c) \<inter> {0x53, 0x4B, 0x49, 0x50} \<noteq> {} \<longrightarrow> (c, up c) \<in> set upper_rows)
     \<and> list_all (\<lambda>(c, l). lo c = l) lower_rows"

text \<open>Two mappings with these rows, to evaluate the definitions: the rows above, the
  ASCII letters, the Kelvin sign and the dotted capital I; every other code point is
  mapped to itself. With them, a test for the final sigma that never holds.\<close>

definition latin_up :: "nat \<Rightarrow> nat list" where
  "latin_up c =
     (case map_of upper_rows c of
        Some u \<Rightarrow> u
      | None \<Rightarrow> if 0x61 \<le> c \<and> c \<le> 0x7A then [c - 0x20] else [c])"

definition latin_lo :: "nat \<Rightarrow> nat list" where
  "latin_lo c =
     (case map_of (lower_rows @ [(0x130, [0x69, 0x307]), (0x212A, [0x6B])]) c of
        Some l \<Rightarrow> l
      | None \<Rightarrow> if 0x41 \<le> c \<and> c \<le> 0x5A then [c + 0x20] else [c])"

definition no_final_sigma :: "nat list \<Rightarrow> nat \<Rightarrow> bool" where
  "no_final_sigma s i = False"

subsection \<open>run_addition_app.py: the inactivity monitor\<close>

text \<open>A data row of \<open>preferred_modes.csv\<close> as \<open>load_preferred_modes\<close> meets it:
  \<open>int(row['learner_id'])\<close>, or None when that raises (the field is not an integer),
  and \<open>row['preferred_mode']\<close>, or None when the field is missing.\<close>

type_synonym mode_row = "int option \<times> string option"

text \<open>The module state the monitor works on: the globals \<open>_last_interaction_ts\<close> and
  \<open>_launched_subtraction\<close>, the rows of \<open>preferred_modes.csv\<close>, and the learners for
  which a restart helper was spawned, in order. Writing the file and spawning the
  helper are taken to succeed.\<close>

record monitor_state =
  last_interaction_ts :: "int \<rightharpoonup> real"
  launched_subtraction :: "int set"
  preferred_modes_csv :: "mode_row list"
  restarts :: "int list"

text \<open>\<open>_load_inactivity_threshold\<close>, lines 69 to 90: the environment override (when set
  and numeric), else the stored threshold of the learner, else the default.\<close>

definition load_inactivity_threshold :: "real option \<Rightarrow> (int \<rightharpoonup> real) \<Rightarrow> int \<Rightarrow> real" where
  "load_inactivity_threshold env_override thresholds lid =
     (case env_override of
        Some seconds \<Rightarrow> seconds
      | None \<Rightarrow> (case thresholds lid of Some seconds \<Rightarrow> seconds | None \<Rightarrow> 120))"

text \<open>\<open>_mark_interaction\<close>, lines 92 and 93.\<close>

definition mark_interaction :: "int \<Rightarrow> real \<Rightarrow> monitor_state \<Rightarrow> monitor_state" where
  "mark_interaction lid now st =
     st\<lparr>last_interaction_ts := (last_interaction_ts st)(lid \<mapsto> now)\<rparr>"

text \<open>The loop of \<open>load_preferred_modes\<close>, lines 187 to 192: a later row of a learner
  overwrites an earlier one; a row whose learner id is not an integer, or that has no
  mode, raises. \<open>nrm\<close> stands for \<open>.strip().lower()\<close> of the Python library.\<close>

fun load_rows ::
  "(string \<Rightarrow> string) \<Rightarrow> mode_row list \<Rightarrow> (int \<times> string) list \<Rightarrow> py_error + (int \<times> string) list" where
  "load_rows nrm [] modes_dict = Inr modes_dict"
| "load_rows nrm ((None, pm) # rows) modes_dict = Inl ValueError"
| "load_rows nrm ((Some lid, None) # rows) modes_dict = Inl KeyError"
| "load_rows nrm ((Some lid, Some pm) # rows) modes_dict =
     (let preferred_mode = nrm pm;
          preferred_mode = (if preferred_mode = ''interactive'' then ''kinesthetic'' else preferred_mode)
      in load_rows nrm rows (dict_set lid preferred_mode modes_dict))"

text \<open>\<open>load_preferred_modes\<close>, lines 182 to 196: any exception gives the empty dict.\<close>

definition load_preferred_modes :: "(string \<Rightarrow> string) \<Rightarrow> mode_row list \<Rightarrow> (int \<times> string) list" where
  "load_preferred_modes nrm rows =
     (case load_rows nrm rows [] of Inl err \<Rightarrow> [] | Inr modes_dict \<Rightarrow> modes_dict)"

definition mode_cycle :: "(string \<times> string) list" where
  "mode_cycle = [(''visual'', ''kinesthetic''), (''kinesthetic'', ''auditory''), (''auditory'', ''visual'')]"

text \<open>\<open>_check_inactivity_and_launch\<close>, lines 95 to 162. \<open>now1\<close> and \<open>now2\<close> are the two
  readings of the clock, at lines 97 and 98; the first is used only when no interaction
  of the learner is recorded. The file is rewritten from the dict, one row per
  learner.\<close>

definition check_inactivity_and_launch ::
  "(string \<Rightarrow> string) \<Rightarrow> real option \<Rightarrow> (int \<rightharpoonup> real) \<Rightarrow> int \<Rightarrow> real \<Rightarrow> real
     \<Rightarrow> monitor_state \<Rightarrow> monitor_state" where
  "check_inactivity_and_launch nrm env_override thresholds lid now1 now2 st =
     (let threshold = load_inactivity_threshold env_override thresholds lid;
          last_ts = (case last_interaction_ts st lid of None \<Rightarrow> now1 | Some ts \<Rightarrow> ts);
          elapsed = now2 - last_ts;
          remaining = threshold - elapsed
      in if remaining \<le> 0 then
           (if lid \<notin> launched_subtraction st then
              (let preferred_modes = load_preferred_modes nrm (preferred_modes_csv st);
                   current_mode = dict_get lid ''visual'' preferred_modes;
                   new_mode = dict_get current_mode ''visual'' mode_cycle;
                   preferred_modes = dict_set lid new_mode preferred_modes
               in st\<lparr>preferred_modes_csv := map (\<lambda>(l, m). (Some l, Some m)) preferred_modes,
                     restarts := restarts st @ [lid],
                     launched_subtraction := insert lid (launched_subtraction st)\<rparr>)
            else st)
         else st)"

text \<open>What happens to the module state during one run of the process: an iteration of
  the loop of \<open>_start_inactivity_monitor\<close> for a learner (lines 167 to 176), with its
  two readings of the clock, or a call of \<open>_mark_interaction\<close> by a request handler. The loop leaves after the learner is
  launched; an iteration after that point changes nothing, so a trace may contain it.\<close>

datatype event = Poll int real real | Mark int real

fun step ::
  "(string \<Rightarrow> string) \<Rightarrow> real option \<Rightarrow> (int \<rightharpoonup> real) \<Rightarrow> event \<Rightarrow> monitor_state \<Rightarrow> monitor_state" where
  "step nrm env_override thresholds (Poll lid now1 now2) st =
     check_inactivity_and_launch nrm env_override thresholds lid now1 now2 st"
| "step nrm env_override thresholds (Mark lid now) st = mark_interaction lid now st"

definition run ::
  "(string \<Rightarrow> string) \<Rightarrow> real option \<Rightarrow> (int \<rightharpoonup> real) \<Rightarrow> event list \<Rightarrow> monitor_state
     \<Rightarrow> monitor_state" where
  "run nrm env_override thresholds events st = fold (step nrm env_override thresholds) events st"

text \<open>The number of times the monitor fired for a learner.\<close>

definition fired :: "int \<Rightarrow> monitor_state \<Rightarrow> nat" where
  "fired lid st = count_list (restarts st) lid"

text \<open>\<open>elapsed\<close> at lines 97 and 98: the time since the last interaction of the
  learner, and the time between the two readings when none is recorded.\<close>

definition elapsed_since_last :: "int \<Rightarrow> real \<Rightarrow> real \<Rightarrow> monitor_state \<Rightarrow> real" where
  "elapsed_since_last lid now1 now2 st =
     now2 - (case last_interaction_ts st lid of None \<Rightarrow> now1 | Some ts \<Rightarrow> ts)"

text \<open>The persisted preferred mode of a learner, read off the file: the mode of the
  last row of the learner, normalized as the loader does, and visual when the learner
  has no row.\<close>

definition persisted_mode :: "(string \<Rightarrow> string) \<Rightarrow> int \<Rightarrow> mode_row list \<Rightarrow> string" where
  "persisted_mode nrm lid rows =
     (case filter (\<lambda>row. fst row = Some lid) rows of
        [] \<Rightarrow> ''visual''
      | row # rest \<Rightarrow>
          (case snd (last (row # rest)) of
             None \<Rightarrow> ''visual''
           | Some pm \<Rightarrow> (let m = nrm pm in if m = ''interactive'' then ''kinesthetic'' else m)))"

text \<open>A row on which the loader does not raise.\<close>

definition row_parses :: "mode_row \<Rightarrow> bool" where
  "row_parses row \<longleftrightarrow> fst row \<noteq> None \<and> snd row \<noteq> None"


text \<open>\<open>.strip().lower()\<close> on a \<open>string\<close>.\<close>

definition strip_lower :: "string \<Rightarrow> string" where
  "strip_lower s = lower (strip s)"

subsection \<open>The scorer as the specification words it\<close>

text \<open>
  A second definition of the scorer, following section 4.1 of the specification
  instead of the source, to compare the two. The specification's formulas are read
  as a program would compute them: a division by zero is an error. The excess rule
  is a parameter, so that the rule of the specification and the rule with the
  source's guard share everything else. The note is taken from the value named
  \<open>score\<close> in step 5, that is, before rounding.
\<close>

definition spec_baseline :: "entry list \<Rightarrow> py_error + real" where
  "spec_baseline records =
     (let good = filter (\<lambda>r. \<not> skipped r \<and> correct r) records;
          answered = filter (\<lambda>r. \<not> skipped r) records
      in if length good < 2
         then (if answered = [] then Inr 10 else median (map response_time answered))
         else median (map response_time good))"

definition spec_excess :: "real \<Rightarrow> real \<Rightarrow> py_error + real" where
  "spec_excess baseline rt =
     (if rt \<le> baseline then Inr 0
      else if baseline * 1.5 = 0 then Inl ZeroDivisionError
      else Inr (min ((rt - baseline) / (baseline * 1.5)) 1))"

definition guarded_excess :: "real \<Rightarrow> real \<Rightarrow> py_error + real" where
  "guarded_excess baseline rt = (if baseline \<le> 0 then Inr 0 else spec_excess baseline rt)"

text \<open>All the values of a list of results, or the first error.\<close>

fun collect :: "(py_error + 'a) list \<Rightarrow> py_error + 'a list" where
  "collect [] = Inr []"
| "collect (Inl err # rs) = Inl err"
| "collect (Inr x # rs) = (case collect rs of Inl err \<Rightarrow> Inl err | Inr xs \<Rightarrow> Inr (x # xs))"

definition spec_weight :: "string \<Rightarrow> real" where
  "spec_weight label =
     (if label \<in> {''angry'', ''disgust'', ''fear'', ''sad''} then 1
      else if label = ''neutral'' then 0.4
      else 0)"

definition spec_note :: "real \<Rightarrow> string" where
  "spec_note score =
     (if score > 0.75 then ''High frustration''
      else if score > 0.4 then ''Moderate frustration''
      else ''Low frustration'')"

definition spec_frustration ::
  "(real \<Rightarrow> real \<Rightarrow> py_error + real) \<Rightarrow> entry list \<Rightarrow> py_error + (real \<times> string)" where
  "spec_frustration excess_rule records =
     (if records = [] then Inr (0, ''Low frustration'')
      else case spec_baseline records of
             Inl err \<Rightarrow> Inl err
           | Inr baseline \<Rightarrow>
               (case collect (map (\<lambda>r. excess_rule baseline (response_time r))
                               (filter (\<lambda>r. \<not> skipped r) records)) of
                  Inl err \<Rightarrow> Inl err
                | Inr excesses \<Rightarrow>
                    (let n = real (length records);
                         err = real (length (filter (\<lambda>r. skipped r \<or> \<not> correct r) records)) / n;
                         rtn = sum_list excesses / real (max 1 (length excesses));
                         val = sum_list (map (\<lambda>r. spec_weight (emotion r)) records) / n;
                         s = 0.45 * err + 0.25 * rtn + 0.30 * val;
                         score = 3 * s\<^sup>2 - 2 * s ^ 3
                     in Inr (round2 score, spec_note score))))"

text \<open>The rt_norm component and the composite of the scorer on a list of entries, with
  the baseline the scorer computes for that list.\<close>

definition scorer_rt_norm :: "entry list \<Rightarrow> py_error + real" where
  "scorer_rt_norm entries =
     (case baseline_of entries of Inl err \<Rightarrow> Inl err | Inr baseline \<Rightarrow> Inr (rt_norm baseline entries))"

definition scorer_composite :: "entry list \<Rightarrow> py_error + real" where
  "scorer_composite entries =
     (case baseline_of entries of
        Inl err \<Rightarrow> Inl err
      | Inr baseline \<Rightarrow>
          Inr (composite (err_rate entries) (rt_norm baseline entries) (valence entries)))"

text \<open>A list of entries with the response time of entry \<open>i\<close> replaced.\<close>

definition set_response_time :: "nat \<Rightarrow> real \<Rightarrow> entry list \<Rightarrow> entry list" where
  "set_response_time i rt entries = entries[i := (entries ! i)\<lparr>response_time := rt\<rparr>]"

subsection \<open>Concrete inputs\<close>

text \<open>Inputs used below to evaluate the definitions.\<close>

definition mk_entry :: "real \<Rightarrow> bool \<Rightarrow> bool \<Rightarrow> string \<Rightarrow> entry" where
  "mk_entry rt c s e =
     \<lparr>mode = ''visual'', question = ''q'', response_time = rt, correct = c, skipped = s,
      emotion = e\<rparr>"

text \<open>Two answered questions, one correct with a sad face, one wrong with a neutral
  face: the composite is 0.435 and the smoothstep 0.40304925.\<close>

definition borderline_entries :: "entry list" where
  "borderline_entries = [mk_entry 1 True False ''sad'', mk_entry 1 False False ''neutral'']"

text \<open>Three correct answers, two of them with response time 0: the baseline is 0.\<close>

definition zero_baseline_entries :: "entry list" where
  "zero_baseline_entries =
     [mk_entry 0 True False ''happy'', mk_entry 0 True False ''happy'', mk_entry 3 True False ''happy'']"

text \<open>Three correct answers with response times 1, 2 and 10: the baseline is the
  median 2, and it moves to 10 when the second response time is raised to 10.\<close>

definition median_shift_entries :: "entry list" where
  "median_shift_entries =
     [mk_entry 1 True False ''happy'', mk_entry 2 True False ''happy'', mk_entry 10 True False ''happy'']"

text \<open>Three correct answers with response times 1, 2 and 3: raising the third leaves
  the baseline 2 in place.\<close>

definition steady_entries :: "entry list" where
  "steady_entries =
     [mk_entry 1 True False ''happy'', mk_entry 2 True False ''happy'', mk_entry 3 True False ''happy'']"

text \<open>A learner log with two tests of learner 7, and the report the batch driver
  writes for it at clock reading t1.\<close>

definition sample_log :: "log_row list" where
  "sample_log =
     [\<lparr>mode = ''visual'', question = ''q1'', response_time = 1, correct = True, skipped = False,
       emotion = ''sad'', learner_id = ''7'', test_number = 1\<rparr>,
      \<lparr>mode = ''visual'', question = ''q2'', response_time = 1, correct = False, skipped = False,
       emotion = ''neutral'', learner_id = ''7'', test_number = 1\<rparr>,
      \<lparr>mode = ''auditory'', question = ''q1'', response_time = 1, correct = False, skipped = False,
       emotion = ''neutral'', learner_id = ''7'', test_number = 2\<rparr>]"

definition sample_report :: "report_row list" where
  "sample_report =
     [\<lparr>rep_learner_id = ''7'', rep_test_number = 1, timestamp = ''t1'', rep_mode = ''visual'',
       frustration_score = 0.4, rep_notes = ''Moderate frustration''\<rparr>,
      \<lparr>rep_learner_id = ''7'', rep_test_number = 2, timestamp = ''t1'', rep_mode = ''auditory'',
       frustration_score = 0.6, rep_notes = ''Moderate frustration''\<rparr>]"

text \<open>Report files of learner 7: one with two rows, the older score 0.2 first and the
  latest score 0.8 last; one with the single score 0.2; one with the single score
  0.6.\<close>

definition mk_report :: "int \<Rightarrow> real \<Rightarrow> report_row" where
  "mk_report t sc = \<lparr>rep_learner_id = ''7'', rep_test_number = t, timestamp = ''t1'',
      rep_mode = ''visual'', frustration_score = sc, rep_notes = note_of sc\<rparr>"

definition two_reports :: "string \<Rightarrow> report_row list" where
  "two_reports lid = (if lid = ''7'' then [mk_report 1 0.2, mk_report 2 0.8] else [])"



text \<open>The log files with the log above for learner 7, and three calls of
  \<open>start_quiz\<close> by learner 7: with a low score, with a high score, and with a low score
  again.\<close>

definition sample_logs :: "string \<Rightarrow> log_row list" where
  "sample_logs lid = (if lid = ''7'' then sample_log else [])"


text \<open>A question whose answer key is the word skip, and an ordinary question with
  the answer key 3.\<close>

definition skip_question :: question_item where
  "skip_question = \<lparr>q_text = ''Type the word skip'', q_answer = skip\<rparr>"

definition count_question :: question_item where
  "count_question = \<lparr>q_text = ''How many stars?'', q_answer = [0x33]\<rparr>"

text \<open>The module state when the process starts, with a preferred-mode file of two
  learners; stored thresholds, 130 seconds for learner 1; and a trace: learner 1
  interacts at time 0 and is polled at times 5, 125 and 130.\<close>

definition monitor_start :: monitor_state where
  "monitor_start =
     \<lparr>last_interaction_ts = Map.empty, launched_subtraction = {},
      preferred_modes_csv = [(Some 1, Some ''Visual ''), (Some 2, Some ''auditory'')],
      restarts = []\<rparr>"


definition stored_thresholds :: "int \<rightharpoonup> real" where
  "stored_thresholds = [1 \<mapsto> 130]"

definition idle_trace :: "event list" where
  "idle_trace = [Mark 1 0, Poll 1 5 5, Poll 1 125 125, Poll 1 130 130]"

text \<open>Log rows with the response time as a float.\<close>

definition mk_float_entry :: "pyfloat \<Rightarrow> bool \<Rightarrow> bool \<Rightarrow> string \<Rightarrow> float_entry" where
  "mk_float_entry rt c s emo =
     \<lparr>mode_f = ''visual'', question_f = ''q'', response_time_f = rt, correct_f = c,
      skipped_f = s, emotion_f = emo\<rparr>"


text \<open>Two correct answers with the response times -inf and inf.\<close>

definition inf_entries :: "float_entry list" where
  "inf_entries =
     [mk_float_entry NegInf True False ''happy'', mk_float_entry PosInf True False ''happy'']"


section \<open>Properties\<close>

subsection \<open>Bounds of the scorer's components\<close>

lemma median_Inr:
  assumes "data \<noteq> []"
  shows "\<exists>m. median data = Inr m"
proof -
  have "length (sort data) \<noteq> 0" using assms by simp
  then show ?thesis unfolding median_def Let_def by metis
qed

lemma baseline_of_Inr: "\<exists>b. baseline_of entries = Inr b"
proof -
  let ?c = "map response_time (filter (\<lambda>e. correct e \<and> \<not> skipped e) entries)"
  let ?a = "map response_time (filter (\<lambda>e. \<not> skipped e) entries)"
  consider "length ?c \<ge> 2" | "\<not> length ?c \<ge> 2" "?a \<noteq> []" | "\<not> length ?c \<ge> 2" "?a = []"
    by blast
  then show ?thesis
  proof cases
    case 1
    then have "?c \<noteq> []" by auto
    from median_Inr [OF this] 1 show ?thesis
      by (simp add: baseline_of_def Let_def)
  next
    case 2
    from median_Inr [OF 2(2)] 2 show ?thesis
      by (simp add: baseline_of_def Let_def)
  next
    case 3
    then show ?thesis by (simp add: baseline_of_def Let_def)
  qed
qed

lemma err_rate_bounds: "0 \<le> err_rate entries \<and> err_rate entries \<le> 1"
proof -
  have "length (filter (\<lambda>e. skipped e \<or> \<not> correct e) entries) \<le> length entries"
    by (rule length_filter_le)
  then show ?thesis
    by (simp add: err_rate_def divide_le_eq_1)
qed

lemma excess_bounds: "0 \<le> excess b rt \<and> excess b rt \<le> 1"
  by (simp add: excess_def)

lemma sum_list_bounds:
  fixes xs :: "real list"
  assumes "\<forall>x\<in>set xs. 0 \<le> x \<and> x \<le> 1"
  shows "0 \<le> sum_list xs \<and> sum_list xs \<le> real (length xs)"
  using assms by (induction xs) auto

lemma rt_excess_bounds: "\<forall>x\<in>set (rt_excess b entries). 0 \<le> x \<and> x \<le> 1"
  by (induction entries) (simp_all add: excess_bounds)

lemma rt_norm_bounds: "0 \<le> rt_norm b entries \<and> rt_norm b entries \<le> 1"
proof -
  let ?xs = "rt_excess b entries"
  have s: "0 \<le> sum_list ?xs \<and> sum_list ?xs \<le> real (length ?xs)"
    using rt_excess_bounds by (rule sum_list_bounds)
  have "real (length ?xs) \<le> real (max 1 (length ?xs))" by simp
  with s have "sum_list ?xs \<le> real (max 1 (length ?xs))" by linarith
  moreover have "0 < real (max 1 (length ?xs))" by simp
  ultimately show ?thesis using s
    by (simp add: rt_norm_def divide_le_eq_1)
qed

lemma emo_val_bounds: "0 \<le> emo_val l \<and> emo_val l \<le> 1"
  by (simp add: emo_val_def Let_def)

lemma valence_bounds: "0 \<le> valence entries \<and> valence entries \<le> 1"
proof -
  let ?xs = "map (\<lambda>e. emo_val (emotion e)) entries"
  have "\<forall>x\<in>set ?xs. 0 \<le> x \<and> x \<le> 1" by (auto simp: emo_val_bounds)
  then have "0 \<le> sum_list ?xs \<and> sum_list ?xs \<le> real (length ?xs)"
    by (rule sum_list_bounds)
  then show ?thesis
    by (simp add: valence_def divide_le_eq_1)
qed

lemma composite_bounds:
  assumes "0 \<le> er \<and> er \<le> 1" "0 \<le> rn \<and> rn \<le> 1" "0 \<le> va \<and> va \<le> 1"
  shows "0 \<le> composite er rn va \<and> composite er rn va \<le> 1"
  using assms by (simp add: composite_def)

text \<open>The smoothstep maps the unit interval into itself: \<open>3s\<^sup>2 - 2s\<^sup>3 = s\<^sup>2(3 - 2s)\<close> and
  \<open>1 - (3s\<^sup>2 - 2s\<^sup>3) = (1 - s)\<^sup>2(1 + 2s)\<close>.\<close>

lemma smoothstep_bounds:
  assumes "0 \<le> s" "s \<le> 1"
  shows "0 \<le> smoothstep s \<and> smoothstep s \<le> 1"
proof
  have "smoothstep s = s * s * (3 - 2 * s)" by (simp add: smoothstep_def algebra_simps)
  moreover have "0 \<le> s * s * (3 - 2 * s)" using assms by simp
  ultimately show "0 \<le> smoothstep s" by simp
  have "1 - smoothstep s = (1 - s) * (1 - s) * (1 + 2 * s)"
    by (simp add: smoothstep_def algebra_simps)
  moreover have "0 \<le> (1 - s) * (1 - s) * (1 + 2 * s)" using assms by simp
  ultimately show "smoothstep s \<le> 1" by simp
qed

lemma round2_bounds:
  assumes "0 \<le> x" "x \<le> 1"
  shows "0 \<le> round2 x \<and> round2 x \<le> 1"
proof -
  define y where "y = x * 100"
  define f where "f = \<lfloor>y\<rfloor>"
  have y: "0 \<le> y" "y \<le> 100" using assms by (simp_all add: y_def)
  have f0: "0 \<le> f" using y by (simp add: f_def)
  have f100: "f \<le> 100" using y unfolding f_def by (simp add: floor_le_iff)
  have d0: "f = 100 \<Longrightarrow> y - of_int f = 0"
  proof -
    assume "f = 100"
    then have "100 \<le> y" unfolding f_def by linarith
    with y \<open>f = 100\<close> show ?thesis by simp
  qed
  have "f + 1 \<le> 100 \<or> f = 100" using f100 by linarith
  then show ?thesis
    using f0 d0 unfolding round2_def Let_def y_def [symmetric] f_def [symmetric]
    by (auto simp: divide_le_eq_1)
qed

lemma raw_score_bounds: "0 \<le> raw_score b entries \<and> raw_score b entries \<le> 1"
proof -
  have "0 \<le> composite (err_rate entries) (rt_norm b entries) (valence entries)
      \<and> composite (err_rate entries) (rt_norm b entries) (valence entries) \<le> 1"
    by (rule composite_bounds [OF err_rate_bounds rt_norm_bounds valence_bounds])
  then show ?thesis
    unfolding raw_score_def by (simp add: smoothstep_bounds)
qed

subsection \<open>The score lies in the unit interval\<close>

text \<open>In exact arithmetic on real response times the scorer is total and its score
  lies in the closed interval from 0 to 1.\<close>

lemma exact_score_in_unit_interval:
  "\<exists>score note. compute_test_frustration entries = Inr (score, note) \<and> 0 \<le> score \<and> score \<le> 1"
proof (cases "entries = []")
  case True
  then show ?thesis by (simp add: compute_test_frustration_def)
next
  case False
  obtain b where b: "baseline_of entries = Inr b"
    using baseline_of_Inr by blast
  have "0 \<le> raw_score b entries" "raw_score b entries \<le> 1"
    using raw_score_bounds by simp_all
  then have "0 \<le> round2 (raw_score b entries) \<and> round2 (raw_score b entries) \<le> 1"
    by (rule round2_bounds)
  with False b show ?thesis
    by (simp add: compute_test_frustration_def Let_def)
qed















lemmas float_defs = compute_test_frustration_f_def baseline_f_def median_f_def rt_norm_f_def
  excess_f_def err_rate_f_def valence_f_def composite_f_def smoothstep_f_def note_of_f_def
  py_sum_def py_min_def f_sub_def insertion_sorted_def mk_float_entry_def emo_val_def lower_def
  lower_char_def capital_letters_def small_letters_def NEGATIVE_EMOTIONS_def NEUTRAL_EMOTION_def round2_def


text \<open>The infinities fail alike: the median of -inf and inf is nan.\<close>

lemma infinite_times_score:
  "compute_test_frustration_f insertion_sorted inf_entries = Inr (NaN, ''Low frustration'')"
  by (simp add: float_defs inf_entries_def Let_def)



subsection \<open>The note is taken before rounding\<close>

lemmas scorer_defs = compute_test_frustration_def baseline_of_def median_def raw_score_def
  err_rate_def rt_norm_def valence_def emo_val_def lower_def lower_char_def capital_letters_def small_letters_def NEGATIVE_EMOTIONS_def
  NEUTRAL_EMOTION_def composite_def smoothstep_def note_of_def round2_def excess_def mk_entry_def

lemma compute_nonempty:
  assumes "entries \<noteq> []" "baseline_of entries = Inr b"
  shows "compute_test_frustration entries
           = Inr (round2 (raw_score b entries), note_of (raw_score b entries))"
  using assms by (simp add: compute_test_frustration_def Let_def)

lemma borderline_value:
  "compute_test_frustration borderline_entries = Inr (2 / 5, ''Moderate frustration'')"
  by (simp add: scorer_defs borderline_entries_def Let_def)

text \<open>
  Claim C10. On a non-empty list the scorer returns the rounded smoothstep value
  together with the note of the unrounded smoothstep value. Consequently there is a
  non-empty list (two answers, one correct and sad, one wrong and neutral) on which
  it returns the pair (0.4, Moderate frustration), while the thresholds applied to
  the returned score 0.4 give Low frustration.
\<close>

theorem note_from_unrounded_score:
  "(\<forall>entries b. entries \<noteq> [] \<and> baseline_of entries = Inr b \<longrightarrow>
      compute_test_frustration entries
        = Inr (round2 (raw_score b entries), note_of (raw_score b entries)))
   \<and> borderline_entries \<noteq> []
   \<and> compute_test_frustration borderline_entries = Inr (0.4, ''Moderate frustration'')
   \<and> note_of 0.4 = ''Low frustration''"
proof -
  have "note_of 0.4 = ''Low frustration''" by (simp add: note_of_def)
  moreover have "borderline_entries \<noteq> []" by (simp add: borderline_entries_def)
  ultimately show ?thesis using compute_nonempty borderline_value by simp
qed

theorem note_from_unrounded_score_witness:
  "borderline_entries \<noteq> [] \<and> baseline_of borderline_entries = Inr 1
   \<and> compute_test_frustration borderline_entries
       = Inr (round2 (raw_score 1 borderline_entries), note_of (raw_score 1 borderline_entries))
   \<and> raw_score 1 borderline_entries = 0.40304925"
proof -
  have b: "baseline_of borderline_entries = Inr 1"
    by (simp add: baseline_of_def median_def borderline_entries_def mk_entry_def)
  have n: "borderline_entries \<noteq> []" by (simp add: borderline_entries_def)
  have r: "raw_score 1 borderline_entries = 0.40304925"
    by (simp add: scorer_defs borderline_entries_def Let_def)
  from note_from_unrounded_score n b r show ?thesis by blast
qed

subsection \<open>The scorer against the specification's definition\<close>

lemma spec_baseline_eq: "spec_baseline records = baseline_of records"
proof -
  have "filter (\<lambda>r. \<not> skipped r \<and> correct r) records
          = filter (\<lambda>e. correct e \<and> \<not> skipped e) records"
    by (rule filter_cong) auto
  then show ?thesis
    by (simp add: spec_baseline_def baseline_of_def Let_def not_le)
qed

lemma guarded_excess_eq: "guarded_excess b rt = Inr (excess b rt)"
  by (simp add: guarded_excess_def spec_excess_def excess_def)

lemma collect_guarded:
  "collect (map (\<lambda>r. guarded_excess b (response_time r)) (filter (\<lambda>r. \<not> skipped r) records))
     = Inr (rt_excess b records)"
  by (induction records) (simp_all add: guarded_excess_eq)

lemma spec_weight_eq: "lower l = l \<Longrightarrow> spec_weight l = emo_val l"
  by (simp add: spec_weight_def emo_val_def NEGATIVE_EMOTIONS_def NEUTRAL_EMOTION_def Let_def)

lemma spec_note_eq: "spec_note x = note_of x"
  by (simp add: spec_note_def note_of_def)

lemma smoothstep_power: "3 * s\<^sup>2 - 2 * s ^ 3 = smoothstep s"
  by (simp add: smoothstep_def power2_eq_square power3_eq_cube algebra_simps)

text \<open>
  Claim C1, as stated, fails: with the excess rule of the specification (0 up to the
  baseline, the capped ratio above it) the reference definition divides by
  \<open>baseline \<times> 1.5 = 0\<close> on three correct answers with response times 0, 0 and 3, where
  the source, which tests \<open>baseline \<le> 0\<close> first, returns (0.0, Low frustration).
\<close>

theorem spec_excess_rule_counterexample:
  "compute_test_frustration zero_baseline_entries = Inr (0, ''Low frustration'')
   \<and> spec_frustration spec_excess zero_baseline_entries = Inl ZeroDivisionError"
  by (simp add: scorer_defs zero_baseline_entries_def spec_frustration_def spec_baseline_def
      spec_excess_def Let_def)

text \<open>
  Claim C1, amended. For every list of interaction records whose emotion labels are
  lowercase-normalized (the data model's invariant), the scorer equals the reference
  definition of the specification with one change: the excess of a record is 0
  whenever the baseline is not positive. Everything else is as the claim states it:
  the empty list gives (0.0, Low), the baseline is the median over correct
  non-skipped records, then over non-skipped records, then 10.0, the three
  components, the weights, the smoothstep, the rounding and the thresholds.
\<close>

theorem scorer_refines_guarded_spec:
  assumes "\<forall>e\<in>set entries. lower (emotion e) = emotion e"
  shows "compute_test_frustration entries = spec_frustration guarded_excess entries"
proof (cases "entries = []")
  case True
  then show ?thesis by (simp add: compute_test_frustration_def spec_frustration_def)
next
  case False
  obtain b where b: "baseline_of entries = Inr b" using baseline_of_Inr by blast
  have w: "map (\<lambda>r. spec_weight (emotion r)) entries = map (\<lambda>e. emo_val (emotion e)) entries"
    using assms by (simp add: spec_weight_eq)
  define s where
    "s = 0.45 * (real (length (filter (\<lambda>r. skipped r \<or> \<not> correct r) entries)) / real (length entries))
       + 0.25 * (sum_list (rt_excess b entries) / real (max 1 (length (rt_excess b entries))))
       + 0.30 * (sum_list (map (\<lambda>r. spec_weight (emotion r)) entries) / real (length entries))"
  have "spec_frustration guarded_excess entries
          = Inr (round2 (3 * s\<^sup>2 - 2 * s ^ 3), spec_note (3 * s\<^sup>2 - 2 * s ^ 3))"
    using False b
    by (simp only: spec_frustration_def spec_baseline_eq collect_guarded Let_def if_False
        sum.case s_def)
  moreover have "s = composite (err_rate entries) (rt_norm b entries) (valence entries)"
    unfolding s_def w composite_def err_rate_def rt_norm_def valence_def by (rule refl)
  moreover have "compute_test_frustration entries
          = Inr (round2 (raw_score b entries), note_of (raw_score b entries))"
    using False b by (rule compute_nonempty)
  ultimately show ?thesis
    by (simp only: raw_score_def smoothstep_power spec_note_eq)
qed

theorem scorer_refines_guarded_spec_witness:
  "list_all (\<lambda>e. lower (emotion e) = emotion e) zero_baseline_entries
   \<and> compute_test_frustration zero_baseline_entries
       = spec_frustration guarded_excess zero_baseline_entries
   \<and> spec_frustration guarded_excess zero_baseline_entries = Inr (0, ''Low frustration'')"
proof -
  have l: "list_all (\<lambda>e. lower (emotion e) = emotion e) zero_baseline_entries"
    by (simp add: zero_baseline_entries_def mk_entry_def lower_def lower_char_def capital_letters_def small_letters_def)
  then have h: "\<forall>e\<in>set zero_baseline_entries. lower (emotion e) = emotion e"
    by (simp add: list_all_iff)
  have "compute_test_frustration zero_baseline_entries = Inr (0, ''Low frustration'')"
    by (simp add: scorer_defs zero_baseline_entries_def Let_def)
  with scorer_refines_guarded_spec [OF h] l show ?thesis by simp
qed

subsection \<open>Monotonicity in one response time\<close>

lemmas comp_defs = scorer_rt_norm_def scorer_composite_def set_response_time_def

text \<open>
  Claim C4, as stated, fails: the baseline is a median of the response times, so a
  larger response time can raise it. Raising the second of the response times 1, 2,
  10 to 10 moves the baseline from 2 to 10; the scorer's rt_norm falls from 1/3 to 0
  and its composite from 1/12 to 0, with err_rate and valence unchanged.
\<close>

theorem rt_norm_monotone_counterexample:
  "response_time (median_shift_entries ! 1) < 10
   \<and> scorer_rt_norm median_shift_entries = Inr (1 / 3)
   \<and> scorer_rt_norm (set_response_time 1 10 median_shift_entries) = Inr 0
   \<and> scorer_composite median_shift_entries = Inr (1 / 12)
   \<and> scorer_composite (set_response_time 1 10 median_shift_entries) = Inr 0"
  by (simp add: comp_defs scorer_defs median_shift_entries_def Let_def)

lemma excess_mono: "rt \<le> rt' \<Longrightarrow> excess b rt \<le> excess b rt'"
  by (auto simp: excess_def min_def divide_right_mono field_simps)

lemma rt_excess_update:
  assumes "i < length entries" "response_time (entries ! i) \<le> rt"
  shows "length (rt_excess b (set_response_time i rt entries)) = length (rt_excess b entries)
       \<and> sum_list (rt_excess b entries) \<le> sum_list (rt_excess b (set_response_time i rt entries))"
  using assms
proof (induction entries arbitrary: i)
  case Nil
  then show ?case by simp
next
  case (Cons e es)
  show ?case
  proof (cases i)
    case 0
    with Cons.prems show ?thesis
      by (simp add: set_response_time_def excess_mono)
  next
    case (Suc j)
    with Cons.prems have "j < length es" "response_time (es ! j) \<le> rt" by simp_all
    from Cons.IH [OF this] Suc show ?thesis
      by (simp add: set_response_time_def)
  qed
qed

lemma rt_norm_mono:
  assumes "i < length entries" "response_time (entries ! i) \<le> rt"
  shows "rt_norm b entries \<le> rt_norm b (set_response_time i rt entries)"
  using rt_excess_update [OF assms, of b]
  by (simp add: rt_norm_def divide_right_mono)

lemma length_filter_list_update:
  "P x = P (xs ! i) \<Longrightarrow> length (filter P (xs[i := x])) = length (filter P xs)"
  by (induction xs arbitrary: i) (auto split: nat.splits)

lemma map_list_update_same:
  "f x = f (xs ! i) \<Longrightarrow> map f (xs[i := x]) = map f xs"
  by (induction xs arbitrary: i) (auto split: nat.splits)

lemma err_rate_set_response_time: "err_rate (set_response_time i rt entries) = err_rate entries"
  by (simp add: err_rate_def set_response_time_def length_filter_list_update)

lemma valence_set_response_time: "valence (set_response_time i rt entries) = valence entries"
  by (simp add: valence_def set_response_time_def map_list_update_same)

text \<open>
  Claim C4, amended. For every list of interaction records and every record in it,
  increasing that record's response time, all other fields and records fixed, does
  not decrease the scorer's rt_norm nor its composite, provided the increase leaves
  the scorer's baseline unchanged. (err_rate and valence do not depend on response
  times, so they are the same before and after.)
\<close>

theorem rt_norm_monotone_fixed_baseline:
  assumes "i < length entries" and "response_time (entries ! i) \<le> rt"
    and "baseline_of (set_response_time i rt entries) = baseline_of entries"
  shows "\<exists>x x' s s'.
           scorer_rt_norm entries = Inr x
         \<and> scorer_rt_norm (set_response_time i rt entries) = Inr x'
         \<and> x \<le> x'
         \<and> scorer_composite entries = Inr s
         \<and> scorer_composite (set_response_time i rt entries) = Inr s'
         \<and> s \<le> s'"
proof -
  obtain b where b: "baseline_of entries = Inr b" using baseline_of_Inr by blast
  have m: "rt_norm b entries \<le> rt_norm b (set_response_time i rt entries)"
    using assms(1,2) by (rule rt_norm_mono)
  then have "composite (err_rate entries) (rt_norm b entries) (valence entries)
      \<le> composite (err_rate entries) (rt_norm b (set_response_time i rt entries)) (valence entries)"
    by (simp add: composite_def)
  with m b assms(3) show ?thesis
    by (simp add: scorer_rt_norm_def scorer_composite_def err_rate_set_response_time
        valence_set_response_time)
qed

theorem rt_norm_monotone_fixed_baseline_witness:
  "(2::nat) < length steady_entries \<and> response_time (steady_entries ! 2) \<le> 4
   \<and> baseline_of (set_response_time 2 4 steady_entries) = baseline_of steady_entries
   \<and> scorer_rt_norm steady_entries = Inr (1 / 9)
   \<and> scorer_rt_norm (set_response_time 2 4 steady_entries) = Inr (2 / 9)"
proof -
  have h1: "(2::nat) < length steady_entries" by (simp add: steady_entries_def)
  have h2: "response_time (steady_entries ! 2) \<le> 4" by (simp add: steady_entries_def mk_entry_def)
  have h3: "baseline_of (set_response_time 2 4 steady_entries) = baseline_of steady_entries"
    by (simp add: comp_defs scorer_defs steady_entries_def Let_def)
  have v: "scorer_rt_norm steady_entries = Inr (1 / 9)"
      "scorer_rt_norm (set_response_time 2 4 steady_entries) = Inr (2 / 9)"
    by (simp_all add: comp_defs scorer_defs steady_entries_def Let_def)
  from rt_norm_monotone_fixed_baseline [OF h1 h2 h3] h1 h2 h3 v show ?thesis by simp
qed


subsection \<open>The batch driver is idempotent\<close>

lemma compute_total: "\<exists>score note. compute_test_frustration entries = Inr (score, note)"
proof (cases "entries = []")
  case True
  then show ?thesis by (simp add: compute_test_frustration_def)
next
  case False
  obtain b where "baseline_of entries = Inr b" using baseline_of_Inr by blast
  with False show ?thesis by (simp add: compute_test_frustration_def Let_def)
qed

lemma new_rows_result:
  assumes "set ts \<subseteq> fst ` set tests"
  shows "\<exists>rows. new_rows lid now A tests ts = Inr rows
           \<and> map rep_test_number rows = filter (\<lambda>t. t \<notin> A) ts
           \<and> (\<forall>r\<in>set rows. rep_learner_id r = lid)"
  using assms
proof (induction ts)
  case Nil
  then show ?case by simp
next
  case (Cons t ts)
  then obtain rows where rows: "new_rows lid now A tests ts = Inr rows"
      "map rep_test_number rows = filter (\<lambda>t. t \<notin> A) ts"
      "\<forall>r\<in>set rows. rep_learner_id r = lid"
    by auto
  from Cons.prems have "t \<in> fst ` set tests" by simp
  then obtain entries where e: "map_of tests t = Some entries"
    by (metis map_of_eq_None_iff not_Some_eq)
  obtain score nt where c: "compute_test_frustration entries = Inr (score, nt)"
    using compute_total by blast
  show ?case
    using rows e c by simp
qed

lemma new_rows_all_present:
  "set ts \<subseteq> A \<Longrightarrow> new_rows lid now A tests ts = Inr []"
  by (induction ts) simp_all

lemma existing_tests_append:
  assumes "\<forall>r\<in>set rows. rep_learner_id r = lid"
  shows "existing_tests_in_report (output_file @ rows) lid
           = existing_tests_in_report output_file lid \<union> set (map rep_test_number rows)"
proof -
  have "filter (\<lambda>row. rep_learner_id row = lid) rows = rows"
    using assms by (simp add: filter_id_conv)
  then show ?thesis by (simp add: existing_tests_in_report_def)
qed

text \<open>
  Claim C5. For every log, every report store and every pair of clock readings, the
  first run of \<open>compute_frustration_per_test\<close> returns some report store, and a
  second run on the same log and on that store returns the store unchanged: every
  test number of the log is by then present in the report for the learner and is
  skipped, so no row is appended and the row count of the learner stays the same.
\<close>

theorem second_run_appends_nothing:
  "\<exists>report1. compute_frustration_per_test now1 log_file output_file = Inr report1
             \<and> compute_frustration_per_test now2 log_file report1 = Inr report1"
proof -
  obtain found tests where g: "read_log_grouped_by_test log_file = (found, tests)"
    by (cases "read_log_grouped_by_test log_file")
  show ?thesis
  proof (cases found)
    case None
    with g show ?thesis by (simp add: compute_frustration_per_test_def)
  next
    case (Some lid)
    show ?thesis
    proof (cases "tests = []")
      case True
      with g Some show ?thesis by (simp add: compute_frustration_per_test_def)
    next
      case False
      let ?ts = "sort (map fst tests)"
      let ?A = "existing_tests_in_report output_file lid"
      have "set ?ts \<subseteq> fst ` set tests" by simp
      from new_rows_result [OF this, of lid now1 ?A]
      obtain rows where rows: "new_rows lid now1 ?A tests ?ts = Inr rows"
          "map rep_test_number rows = filter (\<lambda>t. t \<notin> ?A) ?ts"
          "\<forall>r\<in>set rows. rep_learner_id r = lid"
        by blast
      have first: "compute_frustration_per_test now1 log_file output_file = Inr (output_file @ rows)"
        using g Some False rows(1) by (simp add: compute_frustration_per_test_def)
      have "existing_tests_in_report (output_file @ rows) lid = ?A \<union> set (filter (\<lambda>t. t \<notin> ?A) ?ts)"
        using existing_tests_append [OF rows(3)] rows(2) by simp
      then have "set ?ts \<subseteq> existing_tests_in_report (output_file @ rows) lid"
        by auto
      then have "new_rows lid now2 (existing_tests_in_report (output_file @ rows) lid) tests ?ts = Inr []"
        by (rule new_rows_all_present)
      then have "compute_frustration_per_test now2 log_file (output_file @ rows) = Inr (output_file @ rows)"
        using g Some False by (simp add: compute_frustration_per_test_def)
      with first show ?thesis by simp
    qed
  qed
qed

lemma sample_grouped:
  "read_log_grouped_by_test sample_log =
     (Some ''7'',
      [(1, [\<lparr>mode = ''visual'', question = ''q1'', response_time = 1, correct = True,
              skipped = False, emotion = ''sad''\<rparr>,
            \<lparr>mode = ''visual'', question = ''q2'', response_time = 1, correct = False,
              skipped = False, emotion = ''neutral''\<rparr>]),
       (2, [\<lparr>mode = ''auditory'', question = ''q1'', response_time = 1, correct = False,
              skipped = False, emotion = ''neutral''\<rparr>])])"
  by (simp add: read_log_grouped_by_test_def read_log_step_def dict_get_def entry.defs
      sample_log_def)

lemma sample_first_run:
  "compute_frustration_per_test ''t1'' sample_log [] = Inr sample_report"
  by (simp add: compute_frustration_per_test_def sample_grouped existing_tests_in_report_def
      scorer_defs sample_report_def Let_def)

theorem second_run_appends_nothing_witness:
  "compute_frustration_per_test ''t1'' sample_log [] = Inr sample_report
   \<and> length sample_report = 2
   \<and> compute_frustration_per_test ''t2'' sample_log sample_report = Inr sample_report"
  using second_run_appends_nothing [of "''t1''" sample_log "[]" "''t2''"] sample_first_run
  by (auto simp: sample_report_def)


subsection \<open>The preferred-mode store\<close>

lemmas policy_defs = start_quiz_def strip_def is_space_def get_last_used_mode_def last_used_step_def
  truthy_def get_next_mode_def MODES_def save_preferred_mode_def mk_report_def

lemma get_preferred_mode_append:
  "get_preferred_mode l (xs @ ys)
     = (case get_preferred_mode l xs of Some v \<Rightarrow> Some v | None \<Rightarrow> get_preferred_mode l ys)"
  by (induction xs) simp_all


text \<open>In general the read after a write returns the value written only when the learner
  had no row before.\<close>

lemma get_after_save:
  "get_preferred_mode l (save_preferred_mode l m prefs)
     = (case get_preferred_mode l prefs of Some v \<Rightarrow> Some v | None \<Rightarrow> Some m)"
  by (simp add: save_preferred_mode_def get_preferred_mode_append split: option.splits)

lemma truthy_Some: "truthy v = Some p \<longleftrightarrow> v = Some p \<and> p \<noteq> []"
  by (auto simp: truthy_def split: option.splits if_splits)










subsection \<open>Mode selection\<close>

text \<open>\<open>get_frustration\<close> returns the score of the first row of the learner, and the
  mode cycle is visual, auditory, kinesthetic, visual.\<close>

lemma get_frustration_first:
  "get_frustration lid rows
     = (case filter (\<lambda>row. rep_learner_id row = lid) rows of
          [] \<Rightarrow> None
        | row # _ \<Rightarrow> Some (frustration_score row))"
  by (induction rows) simp_all

lemma get_next_mode_cycle:
  "get_next_mode ''visual'' = Inr ''auditory''"
  "get_next_mode ''auditory'' = Inr ''kinesthetic''"
  "get_next_mode ''kinesthetic'' = Inr ''visual''"
  by (simp_all add: get_next_mode_def MODES_def)

text \<open>
  Claim C2 at a failing input. Learner 7 has two reports, score 0.2 for test 1 and
  score 0.8 for test 2, no stored preferred mode, and a log whose latest test (2)
  was in auditory mode. The latest score 0.8 is at least 0.4, so the decision table
  gives the mode after auditory, kinesthetic, and no write. \<open>start_quiz\<close> reads the
  score of the first row, 0.2, takes the low-frustration branch, chooses auditory
  and writes it as the preferred mode.
\<close>

theorem first_score_used_at_failing_input:
  "get_frustration ''7'' (two_reports ''7'') = Some 0.2
   \<and> frustration_score (last (two_reports ''7'')) = 0.8
   \<and> get_last_used_mode sample_log = Some ''auditory''
   \<and> get_next_mode ''auditory'' = Inr ''kinesthetic''
   \<and> start_quiz ''7'' [] two_reports (\<lambda>lid. if lid = ''7'' then sample_log else [])
        = Inr (''auditory'', [(''7'', ''auditory'')])"
  by (simp add: policy_defs two_reports_def sample_log_def Let_def)

text \<open>
  Claim C3 at a failing input, the one of claim C2, and by the same defect. Learner 7
  has no stored preferred mode and the latest score 0.8, the high-frustration row,
  in which the store is to be left unchanged. \<open>start_quiz\<close> reads the first score 0.2,
  takes the low-frustration branch and writes: the preferred mode read for learner 7
  goes from none to auditory.
\<close>

theorem high_row_write_at_failing_input:
  "frustration_score (last (two_reports ''7'')) = 0.8
   \<and> get_preferred_mode ''7'' [] = None
   \<and> (case start_quiz ''7'' [] two_reports sample_logs of
         Inl err \<Rightarrow> None
       | Inr (m, prefs') \<Rightarrow> get_preferred_mode ''7'' prefs') = Some ''auditory''"
  by (simp add: policy_defs two_reports_def sample_logs_def sample_log_def Let_def)

text \<open>What \<open>start_quiz\<close> does to the file, by the score it reads (that of the first row
  of the learner): nothing without a report or with a score read of at least 0.4; one
  appended row (learner, chosen mode) with a score read below 0.4, which repeats
  the stored value when a non-empty preferred mode is stored and then leaves the value
  read unchanged for every learner.\<close>

lemma append_known_row:
  assumes "get_preferred_mode lid prefs = Some p"
  shows "get_preferred_mode l (prefs @ [(lid, p)]) = get_preferred_mode l prefs"
  using assms by (cases "l = lid") (simp_all add: get_preferred_mode_append split: option.splits)

lemma store_frame_by_score_read:
  assumes "start_quiz id_input prefs reports logs = Inr (m, prefs')"
  shows "(get_frustration (strip id_input) (reports (strip id_input)) = None \<longrightarrow> prefs' = prefs)
       \<and> (\<forall>sc. get_frustration (strip id_input) (reports (strip id_input)) = Some sc \<and> sc \<ge> 0.4
               \<longrightarrow> prefs' = prefs)
       \<and> (\<forall>sc. get_frustration (strip id_input) (reports (strip id_input)) = Some sc \<and> sc < 0.4
               \<longrightarrow> prefs' = prefs @ [(strip id_input, m)])
       \<and> (\<forall>sc p. get_frustration (strip id_input) (reports (strip id_input)) = Some sc \<and> sc < 0.4
               \<and> get_preferred_mode (strip id_input) prefs = Some p \<and> p \<noteq> []
               \<longrightarrow> m = p \<and> (\<forall>l. get_preferred_mode l prefs' = get_preferred_mode l prefs))"
proof -
  let ?lid = "strip id_input"
  from assms have ne: "?lid \<noteq> []"
    by (auto simp: start_quiz_def Let_def split: if_splits)
  have r1: "get_frustration ?lid (reports ?lid) = None \<Longrightarrow> prefs' = prefs"
    using assms ne by (simp add: start_quiz_def Let_def)
  have r2: "prefs' = prefs"
    if "get_frustration ?lid (reports ?lid) = Some sc" "sc \<ge> 0.4" for sc
    using assms ne that
    by (auto simp: start_quiz_def Let_def split: option.splits sum.splits)
  have r3: "prefs' = prefs @ [(?lid, m)]"
    if "get_frustration ?lid (reports ?lid) = Some sc" "sc < 0.4" for sc
    using assms ne that
    by (auto simp: start_quiz_def Let_def save_preferred_mode_def)
  have r4: "m = p \<and> (\<forall>l. get_preferred_mode l prefs' = get_preferred_mode l prefs)"
    if "get_frustration ?lid (reports ?lid) = Some sc" "sc < 0.4"
       "get_preferred_mode ?lid prefs = Some p" "p \<noteq> []" for sc p
  proof -
    have t: "truthy (get_preferred_mode ?lid prefs) = Some p"
      using that(3,4) by (simp add: truthy_Some)
    have m: "m = p"
      using assms ne that(1,2) t by (auto simp: start_quiz_def Let_def)
    moreover have "prefs' = prefs @ [(?lid, p)]"
      using r3 [OF that(1,2)] m by simp
    ultimately show ?thesis
      using append_known_row [OF that(3)] by simp
  qed
  show ?thesis using r1 r2 r3 r4 by blast
qed

subsection \<open>Skipped answers are not correct\<close>

text \<open>Under \<open>case_tables\<close>, the four letters of SKIP come from few code points: S from
  S, s and the long s, K from K and k, I from I, i and the dotless i, and P from P and
  p. The sharp s and the ligatures give two or three letters at once, of which the
  second never fits.\<close>

lemma case_tables_lower:
  assumes "case_tables up lo"
  shows "lo 0x53 = [0x73]" "lo 0x73 = [0x73]" "lo 0x17F = [0x17F]"
        "lo 0x4B = [0x6B]" "lo 0x6B = [0x6B]"
        "lo 0x49 = [0x69]" "lo 0x69 = [0x69]" "lo 0x131 = [0x131]"
        "lo 0x50 = [0x70]" "lo 0x70 = [0x70]"
  using assms by (simp_all add: case_tables_def lower_rows_def)

lemma case_tables_upper:
  assumes "case_tables up lo" and "up c @ rest = x # xs" and "x \<in> {0x53, 0x4B, 0x49, 0x50}"
  shows "(c, up c) \<in> set upper_rows"
proof -
  from assms(1) have "up c \<noteq> []" by (simp add: case_tables_def)
  with assms(2) have "x \<in> set (up c)" by (cases "up c") auto
  with assms(3) have "set (up c) \<inter> {0x53, 0x4B, 0x49, 0x50} \<noteq> {}" by blast
  moreover from assms(1)
  have "\<forall>c. set (up c) \<inter> {0x53, 0x4B, 0x49, 0x50} \<noteq> {} \<longrightarrow> (c, up c) \<in> set upper_rows"
    unfolding case_tables_def by (elim conjE)
  ultimately show ?thesis by blast
qed

lemma up_S:
  assumes "case_tables up lo" and "up c @ rest = 0x53 # 0x4B # xs"
  shows "c \<in> {0x53, 0x73, 0x17F} \<and> rest = 0x4B # xs"
  using case_tables_upper [OF assms(1,2)] assms(2)
  by (auto simp: upper_rows_def)

lemma up_K:
  assumes "case_tables up lo" and "up c @ rest = 0x4B # xs"
  shows "c \<in> {0x4B, 0x6B} \<and> rest = xs"
  using case_tables_upper [OF assms(1,2)] assms(2)
  by (auto simp: upper_rows_def)

lemma up_I:
  assumes "case_tables up lo" and "up c @ rest = 0x49 # xs"
  shows "c \<in> {0x49, 0x69, 0x131} \<and> rest = xs"
  using case_tables_upper [OF assms(1,2)] assms(2)
  by (auto simp: upper_rows_def)

lemma up_P:
  assumes "case_tables up lo" and "up c @ rest = 0x50 # xs"
  shows "c \<in> {0x50, 0x70} \<and> rest = xs"
  using case_tables_upper [OF assms(1,2)] assms(2)
  by (auto simp: upper_rows_def)


text \<open>The strings whose uppercase is SKIP.\<close>

lemma upper_SKIP_shape:
  assumes t: "case_tables up lo" and u: "py_upper up a = SKIP"
  shows "\<exists>c1 c2 c3 c4. a = [c1, c2, c3, c4] \<and> c1 \<in> {0x53, 0x73, 0x17F} \<and> c2 \<in> {0x4B, 0x6B}
           \<and> c3 \<in> {0x49, 0x69, 0x131} \<and> c4 \<in> {0x50, 0x70}"
proof -
  from u obtain c1 a1 where a: "a = c1 # a1"
    by (cases a) (auto simp: py_upper_def SKIP_def)
  with u have "up c1 @ concat (map up a1) = 0x53 # 0x4B # [0x49, 0x50]"
    by (simp add: py_upper_def SKIP_def)
  from up_S [OF t this] have c1: "c1 \<in> {0x53, 0x73, 0x17F}"
    and r1: "concat (map up a1) = 0x4B # [0x49, 0x50]" by simp_all
  from r1 obtain c2 a2 where a1: "a1 = c2 # a2" by (cases a1) auto
  with r1 have "up c2 @ concat (map up a2) = 0x4B # [0x49, 0x50]" by simp
  from up_K [OF t this] have c2: "c2 \<in> {0x4B, 0x6B}"
    and r2: "concat (map up a2) = 0x49 # [0x50]" by simp_all
  from r2 obtain c3 a3 where a2: "a2 = c3 # a3" by (cases a2) auto
  with r2 have "up c3 @ concat (map up a3) = 0x49 # [0x50]" by simp
  from up_I [OF t this] have c3: "c3 \<in> {0x49, 0x69, 0x131}"
    and r3: "concat (map up a3) = 0x50 # []" by simp_all
  from r3 obtain c4 a4 where a3: "a3 = c4 # a4" by (cases a3) auto
  with r3 have "up c4 @ concat (map up a4) = 0x50 # []" by simp
  from up_P [OF t this] have c4: "c4 \<in> {0x50, 0x70}"
    and r4: "concat (map up a4) = []" by simp_all
  have "a4 = []"
  proof (cases a4)
    case Nil
    then show ?thesis .
  next
    case (Cons c5 a5)
    with r4 have "up c5 = []" by simp
    with t show ?thesis by (simp add: case_tables_def)
  qed
  with a a1 a2 a3 c1 c2 c3 c4 show ?thesis by simp
qed

lemma upper_SKIP_lower:
  assumes t: "case_tables up lo" and u: "py_upper up a = SKIP"
  shows "py_lower lo fs a \<in> lowercase_skips"
proof -
  from upper_SKIP_shape [OF t u] obtain c1 c2 c3 c4 where a: "a = [c1, c2, c3, c4]"
    and c1: "c1 \<in> {0x53, 0x73, 0x17F}" and c2: "c2 \<in> {0x4B, 0x6B}"
    and c3: "c3 \<in> {0x49, 0x69, 0x131}" and c4: "c4 \<in> {0x50, 0x70}"
    by blast
  note l = case_tables_lower [OF t]
  from c1 c2 c3 c4 have n: "c1 \<noteq> 0x3A3" "c2 \<noteq> 0x3A3" "c3 \<noteq> 0x3A3" "c4 \<noteq> 0x3A3"
    by auto
  have p: "py_lower lo fs a = lo c1 @ lo c2 @ lo c3 @ lo c4"
    by (simp add: a py_lower_def n)
  from c1 l(1,2,3) have l1: "lo c1 = [0x73] \<or> lo c1 = [0x17F]" by auto
  from c2 l(4,5) have l2: "lo c2 = [0x6B]" by auto
  from c3 l(6,7,8) have l3: "lo c3 = [0x69] \<or> lo c3 = [0x131]" by auto
  from c4 l(9,10) have l4: "lo c4 = [0x70]" by auto
  from l1 l3 show ?thesis
    unfolding p l2 l4 lowercase_skips_def by auto
qed


lemma py_lower_Nil:
  assumes "case_tables up lo"
  shows "py_lower lo fs s = [] \<longleftrightarrow> s = []"
proof (cases s)
  case Nil
  then show ?thesis by (simp add: py_lower_def)
next
  case (Cons c cs)
  with assms show ?thesis by (simp add: py_lower_def case_tables_def)
qed

lemma py_strip_Nil: "py_strip [] = []"
  by (simp add: py_strip_def)

text \<open>
  Claim C8, amended. For every answer key that is not the empty string and whose
  lowercase is none of the four strings of \<open>lowercase_skips\<close>, and for every submitted
  answer, a row recorded as skipped is recorded as not correct, by the desktop
  application and by the web application alike. The case mappings are any two that
  have the rows of \<open>case_tables\<close>.
\<close>

theorem skipped_not_correct:
  assumes "case_tables up lo" and "q_answer q \<noteq> []"
    and "py_lower lo fs (q_answer q) \<notin> lowercase_skips"
  shows "(skipped (submit_answer up lo fs lid t m q time_taken emo answer)
            \<longrightarrow> \<not> correct (submit_answer up lo fs lid t m q time_taken emo answer))
       \<and> (skipped (submit_answer_web up lo fs lid t m q time_taken emo answer)
            \<longrightarrow> \<not> correct (submit_answer_web up lo fs lid t m q time_taken emo answer))"
proof -
  have k: "py_lower lo fs (q_answer q) \<noteq> []"
    using assms(1,2) by (simp add: py_lower_Nil)
  have a: "py_lower lo fs (py_strip answer) \<noteq> py_lower lo fs (q_answer q)"
    if "py_upper up (py_strip answer) = SKIP"
    using upper_SKIP_lower [OF assms(1) that, of fs] assms(3) by auto
  have b: "py_lower lo fs (py_strip answer) \<noteq> py_lower lo fs (q_answer q)"
    if "py_strip answer = []"
    using k that by (simp add: py_lower_def)
  show ?thesis
    using a b py_strip_Nil
    by (auto simp: submit_answer_def submit_answer_web_def Let_def)
qed

text \<open>The two mappings \<open>latin_up\<close> and \<open>latin_lo\<close> have these rows.\<close>

lemma latin_tables: "case_tables latin_up latin_lo"
proof -
  have 1: "latin_up c \<noteq> [] \<and> latin_lo c \<noteq> []" for c
    by (auto simp: latin_up_def latin_lo_def upper_rows_def lower_rows_def)
  have 2: "(c, latin_up c) \<in> set upper_rows"
    if "set (latin_up c) \<inter> {0x53, 0x4B, 0x49, 0x50} \<noteq> {}" for c
  proof (cases "map_of upper_rows c")
    case None
    then have n: "c \<notin> {0x49, 0x4B, 0x50, 0x53, 0x69, 0x6B, 0x70, 0x73}"
      by (auto simp: upper_rows_def split: if_splits)
    from None that have "(if 0x61 \<le> c \<and> c \<le> 0x7A then c - 0x20 else c) \<in> {0x53, 0x4B, 0x49, 0x50}"
      by (auto simp: latin_up_def split: if_splits)
    with n show ?thesis by (auto split: if_splits)
  next
    case (Some u)
    then have "(c, u) \<in> set upper_rows" by (rule map_of_SomeD)
    with Some show ?thesis by (simp add: latin_up_def)
  qed
  have 3: "list_all (\<lambda>(c, l). latin_lo c = l) lower_rows"
    by (simp add: lower_rows_def latin_lo_def)
  from 1 2 3 show ?thesis unfolding case_tables_def by blast
qed

lemmas submit_defs = submit_answer_def submit_answer_web_def py_strip_def py_isspace_def
  py_upper_def py_lower_def latin_up_def latin_lo_def upper_rows_def lower_rows_def
  no_final_sigma_def SKIP_def skip_def round2_def

text \<open>
  Claim C8, as stated, fails: the answer key is compared without its case, and the
  key may be the word skip itself. For the question whose key is skip, the answer
  SKIP is recorded as skipped and as correct, by both applications.
\<close>

theorem skipped_and_correct_counterexample:
  "skipped (submit_answer latin_up latin_lo no_final_sigma ''7'' 1 ''visual'' skip_question 2 ''happy'' SKIP)
   \<and> correct (submit_answer latin_up latin_lo no_final_sigma ''7'' 1 ''visual'' skip_question 2 ''happy'' SKIP)
   \<and> skipped (submit_answer_web latin_up latin_lo no_final_sigma ''7'' 1 ''visual'' skip_question 2 ''happy'' SKIP)
   \<and> correct (submit_answer_web latin_up latin_lo no_final_sigma ''7'' 1 ''visual'' skip_question 2 ''happy'' SKIP)"
  by (simp add: submit_defs skip_question_def Let_def)

text \<open>The amended claim at the key 3: an answer spelled with the dotless i between a
  space and a no-break space is recorded by the desktop application as skipped and
  not correct, and so is the empty answer by the web application.\<close>

theorem skipped_not_correct_witness:
  "case_tables latin_up latin_lo \<and> q_answer count_question \<noteq> []
   \<and> py_lower latin_lo no_final_sigma (q_answer count_question) \<notin> lowercase_skips
   \<and> skipped (submit_answer latin_up latin_lo no_final_sigma ''7'' 1 ''visual'' count_question 2
               ''happy'' [0x20, 0x73, 0x6B, 0x131, 0x70, 0xA0])
   \<and> \<not> correct (submit_answer latin_up latin_lo no_final_sigma ''7'' 1 ''visual'' count_question 2
               ''happy'' [0x20, 0x73, 0x6B, 0x131, 0x70, 0xA0])
   \<and> skipped (submit_answer_web latin_up latin_lo no_final_sigma ''7'' 1 ''visual'' count_question 2
               ''happy'' [])
   \<and> \<not> correct (submit_answer_web latin_up latin_lo no_final_sigma ''7'' 1 ''visual'' count_question 2
               ''happy'' [])"
proof -
  have h2: "q_answer count_question \<noteq> []" by (simp add: count_question_def)
  have h3: "py_lower latin_lo no_final_sigma (q_answer count_question) \<notin> lowercase_skips"
    by (simp add: count_question_def py_lower_def latin_lo_def lower_rows_def lowercase_skips_def)
  have s1: "skipped (submit_answer latin_up latin_lo no_final_sigma ''7'' 1 ''visual'' count_question 2
               ''happy'' [0x20, 0x73, 0x6B, 0x131, 0x70, 0xA0])"
    by (simp add: submit_defs count_question_def Let_def)
  have s2: "skipped (submit_answer_web latin_up latin_lo no_final_sigma ''7'' 1 ''visual'' count_question 2
               ''happy'' [])"
    by (simp add: submit_defs count_question_def Let_def)
  from skipped_not_correct [OF latin_tables h2 h3, of "''7''" 1 "''visual''" 2 "''happy''"
         "[0x20, 0x73, 0x6B, 0x131, 0x70, 0xA0]"]
       skipped_not_correct [OF latin_tables h2 h3, of "''7''" 1 "''visual''" 2 "''happy''" "[]"]
       latin_tables h2 h3 s1 s2
  show ?thesis by blast
qed

text \<open>The same key spelled with the dotless i is excluded for the same reason: the
  answer equal to it is recorded as skipped and as correct.\<close>

lemma dotless_key_skipped_and_correct:
  "skipped (submit_answer latin_up latin_lo no_final_sigma ''7'' 1 ''visual''
              \<lparr>q_text = ''Type the word'', q_answer = [0x73, 0x6B, 0x131, 0x70]\<rparr> 2 ''happy''
              [0x73, 0x6B, 0x131, 0x70])
   \<and> correct (submit_answer latin_up latin_lo no_final_sigma ''7'' 1 ''visual''
              \<lparr>q_text = ''Type the word'', q_answer = [0x73, 0x6B, 0x131, 0x70]\<rparr> 2 ''happy''
              [0x73, 0x6B, 0x131, 0x70])"
  by (simp add: submit_defs Let_def)

subsection \<open>The inactivity monitor\<close>

















lemmas monitor_defs = run_def check_inactivity_and_launch_def mark_interaction_def
  load_inactivity_threshold_def load_preferred_modes_def dict_get_def
  mode_cycle_def strip_lower_def strip_def is_space_def lower_def lower_char_def capital_letters_def small_letters_def fired_def
  elapsed_since_last_def persisted_mode_def row_parses_def
  monitor_start_def idle_trace_def stored_thresholds_def


text \<open>The threshold compared is not always the learner's own either. With the override
  set to 500 seconds and a stored threshold of 130 seconds for learner 1, a poll 150
  seconds after the last interaction does not fire and leaves the file as it was.\<close>

lemma override_beats_stored_threshold:
  "stored_thresholds 1 = Some 130
   \<and> elapsed_since_last 1 150 150 (run strip_lower (Some 500) stored_thresholds [Mark 1 0] monitor_start) = 150
   \<and> fired 1 (run strip_lower (Some 500) stored_thresholds [Mark 1 0, Poll 1 150 150] monitor_start) = 0
   \<and> preferred_modes_csv (run strip_lower (Some 500) stored_thresholds [Mark 1 0, Poll 1 150 150] monitor_start)
       = preferred_modes_csv monitor_start"
  by (simp add: monitor_defs Let_def)




end
